theory Spec2Isabelle
  imports Complex_Main "HOL-Library.Sublist"
begin

section \<open>Conventions of the embedding\<close>

text \<open>
  The model registry is a TypeScript library: a parser that normalises the records of
  the OpenRouter catalogue (\<^verbatim>\<open>parser.ts\<close>), a fetcher with a three-stage fallback
  chain (\<^verbatim>\<open>fetcher.ts\<close>, \<^verbatim>\<open>fallback.ts\<close>) and lookup and query helpers
  (\<^verbatim>\<open>utils.ts\<close>). Each function below carries the name of the function it embeds.

  \<^item> Strings are \<open>char list\<close>s over ASCII. \<^verbatim>\<open>toLowerCase\<close>, \<^verbatim>\<open>toUpperCase\<close>,
    \<^verbatim>\<open>trim\<close> and the class \<^verbatim>\<open>\s\<close> act on the ASCII letters and the six ASCII white
    space characters.
  \<^item> Token counts (\<^verbatim>\<open>context_length\<close>, \<^verbatim>\<open>max_completion_tokens\<close>, \<^verbatim>\<open>limit\<close>, ...) are
    integers, \<open>int\<close>. Prices are \<open>jsnum\<close>, the binary64 values: \<open>NaN\<close>, the two infinities
    and the finite values, each kept as the real number it denotes. \<^verbatim>\<open>parseFloat\<close>, the
    product and the difference round the exact result to the nearest binary64 value
    (\<open>toBinary64\<close>).
  \<^item> An optional field is an \<open>option\<close>; \<^verbatim>\<open>null\<close> and \<^verbatim>\<open>undefined\<close> are both \<open>None\<close>
    except in the default parameters, which the parser passes through unchanged.
  \<^item> A \<^verbatim>\<open>Date\<close> is its time value in milliseconds since the epoch, and an ISO string
    is kept as the time value it renders. The clock is a parameter \<open>now\<close>; its readings are
    taken to be valid time values that stay valid after the cache duration is added.
  \<^item> An exception is a value \<open>Inl e\<close> of \<open>error + 'a\<close>.
  \<^item> A field whose TypeScript name occurs in several interfaces carries a prefix of its
    record (\<open>raw_\<close>, \<open>arch_\<close>, \<open>price_\<close>, \<open>top_\<close>, \<open>lim_\<close>, \<open>def_\<close>, \<open>prov_\<close>, \<open>model_\<close>,
    \<open>cap_\<close>, \<open>opt_\<close>); a function whose name Isabelle reserves carries a suffix.
  \<^item> An object used as a dictionary is a finite map over its own keys. Where the source
    reads such an object at a key that \<^verbatim>\<open>Object.prototype\<close> also defines and then calls
    a method on what it finds, the resulting \<^verbatim>\<open>TypeError\<close> is a branch of the model
    (see \<open>buildRegistry\<close>).
\<close>

datatype error =
    TypeError
  | RangeError
  | SyntaxError
  | FetchError
  | ApiError nat

subsection \<open>Strings\<close>

definition upperLetters :: string where
  "upperLetters = ''ABCDEFGHIJKLMNOPQRSTUVWXYZ''"

definition lowerLetters :: string where
  "lowerLetters = ''abcdefghijklmnopqrstuvwxyz''"

definition toLowerChar :: "char \<Rightarrow> char" where
  "toLowerChar c = (case map_of (zip upperLetters lowerLetters) c of Some d \<Rightarrow> d | None \<Rightarrow> c)"

definition toUpperChar :: "char \<Rightarrow> char" where
  "toUpperChar c = (case map_of (zip lowerLetters upperLetters) c of Some d \<Rightarrow> d | None \<Rightarrow> c)"

definition toLowerCase :: "string \<Rightarrow> string" where
  "toLowerCase s = map toLowerChar s"

definition toUpperCase :: "string \<Rightarrow> string" where
  "toUpperCase s = map toUpperChar s"

text \<open>Tab, line feed, vertical tab, form feed, carriage return and space.\<close>

definition isWhiteSpace :: "char \<Rightarrow> bool" where
  "isWhiteSpace c = (c \<in> set [CHR 0x09, CHR 0x0A, CHR 0x0B, CHR 0x0C, CHR 0x0D, CHR 0x20])"

definition trimStart :: "string \<Rightarrow> string" where
  "trimStart s = dropWhile isWhiteSpace s"

definition trim :: "string \<Rightarrow> string" where
  "trim s = rev (dropWhile isWhiteSpace (rev (dropWhile isWhiteSpace s)))"

text \<open>\<^verbatim>\<open>s.split(sep)\<close> for a separator of one character: never the empty list.\<close>

fun split :: "char \<Rightarrow> string \<Rightarrow> string list" where
  "split sep [] = [[]]"
| "split sep (c # cs) =
     (if c = sep then [] # split sep cs
      else (case split sep cs of [] \<Rightarrow> [[c]] | p # ps \<Rightarrow> (c # p) # ps))"

fun join :: "string \<Rightarrow> string list \<Rightarrow> string" where
  "join sep [] = []"
| "join sep [p] = p"
| "join sep (p # q # ps) = p @ sep @ join sep (q # ps)"

definition startsWith :: "string \<Rightarrow> string \<Rightarrow> bool" where
  "startsWith s t = (take (length t) s = t)"

definition endsWith :: "string \<Rightarrow> string \<Rightarrow> bool" where
  "endsWith s t = (length t \<le> length s \<and> drop (length s - length t) s = t)"

fun includesStr :: "string \<Rightarrow> string \<Rightarrow> bool" where
  "includesStr [] t = (t = [])"
| "includesStr (c # cs) t = (startsWith (c # cs) t \<or> includesStr cs t)"

subsection \<open>Numbers\<close>

text \<open>
  A number of the engine is a binary64 value. A finite value is kept as the real number it
  denotes; the two zeros are one value (\<^verbatim>\<open>-0 === 0\<close> holds, and both are falsy).
\<close>

datatype jsnum = NaN | NegInf | Fin real | PosInf

text \<open>Truthiness of a number: \<^verbatim>\<open>NaN\<close> and zero are falsy.\<close>

definition truthy :: "jsnum \<Rightarrow> bool" where
  "truthy x = (x \<noteq> NaN \<and> x \<noteq> Fin 0)"

fun sgn_jsnum :: "jsnum \<Rightarrow> int" where
  "sgn_jsnum NaN = 0"
| "sgn_jsnum NegInf = - 1"
| "sgn_jsnum PosInf = 1"
| "sgn_jsnum (Fin x) = (if x < 0 then - 1 else if x = 0 then 0 else 1)"

definition ofSign :: "int \<Rightarrow> jsnum" where
  "ofSign s = (if s < 0 then NegInf else PosInf)"

subsection \<open>Rounding to binary64\<close>

text \<open>
  The finite binary64 values are the multiples \<open>n * 2 ^ (e - 52)\<close> with \<open>\<bar>n\<bar> < 2 ^ 53\<close> and
  \<open>- 1022 \<le> e \<le> 1023\<close>. An exact result is rounded to the nearest of them, a tie to the
  one with the even \<open>n\<close>; what rounds to \<open>2 ^ 1024\<close> or beyond is an infinity, and what lies
  at or below half of the least positive value \<open>2 ^ (- 1074)\<close> is zero.
\<close>

definition pow2 :: "int \<Rightarrow> real" where
  "pow2 e = (if 0 \<le> e then 2 ^ nat e else 1 / 2 ^ nat (- e))"

text \<open>
  The exponent of the binade of \<open>a\<close>: the largest \<open>e\<close> from \<open>- 1022\<close> to \<open>1023\<close> with
  \<open>2 ^ e \<le> a\<close>, and \<open>- 1022\<close> throughout the subnormal range. It is found by bisection;
  eleven steps exhaust the 2046 exponents.
\<close>

fun binadeIn :: "nat \<Rightarrow> int \<Rightarrow> int \<Rightarrow> real \<Rightarrow> int" where
  "binadeIn 0 lo hi a = lo"
| "binadeIn (Suc n) lo hi a =
     (if lo = hi then lo
      else if pow2 ((lo + hi + 1) div 2) \<le> a then binadeIn n ((lo + hi + 1) div 2) hi a
      else binadeIn n lo ((lo + hi + 1) div 2 - 1) a)"

definition binade :: "real \<Rightarrow> int" where
  "binade a = binadeIn 11 (- 1022) 1023 a"

text \<open>The integer nearest to \<open>q\<close>, given its floor \<open>f\<close>; a tie goes to the even neighbour.\<close>

definition tieToEven :: "real \<Rightarrow> int \<Rightarrow> int" where
  "tieToEven q f =
     (if q - of_int f < 1 / 2 then f
      else if 1 / 2 < q - of_int f then f + 1
      else if even f then f else f + 1)"

definition roundHalfEven :: "real \<Rightarrow> int" where
  "roundHalfEven q = tieToEven q \<lfloor>q\<rfloor>"

text \<open>The multiple of \<open>ulp\<close> nearest to \<open>a\<close>.\<close>

definition quantize :: "real \<Rightarrow> real \<Rightarrow> real" where
  "quantize a ulp = of_int (roundHalfEven (a / ulp)) * ulp"

text \<open>The value of magnitude \<open>v\<close> with the sign of \<open>x\<close>, or the infinity of that sign.\<close>

definition withSignOf :: "real \<Rightarrow> real \<Rightarrow> jsnum" where
  "withSignOf x v =
     (if pow2 1024 \<le> v then (if x < 0 then NegInf else PosInf)
      else Fin (if x < 0 then - v else v))"

definition toBinary64 :: "real \<Rightarrow> jsnum" where
  "toBinary64 x = withSignOf x (quantize \<bar>x\<bar> (pow2 (binade \<bar>x\<bar> - 52)))"

subsection \<open>Arithmetic\<close>

text \<open>
  The product \<^verbatim>\<open>x * y\<close>: the exact product of two finite values, rounded; zero times an
  infinity is \<^verbatim>\<open>NaN\<close>.
\<close>

fun times_jsnum :: "jsnum \<Rightarrow> jsnum \<Rightarrow> jsnum" where
  "times_jsnum NaN y = NaN"
| "times_jsnum x NaN = NaN"
| "times_jsnum (Fin x) (Fin y) = toBinary64 (x * y)"
| "times_jsnum x y =
     (if sgn_jsnum x = 0 \<or> sgn_jsnum y = 0 then NaN else ofSign (sgn_jsnum x * sgn_jsnum y))"

text \<open>
  The difference \<^verbatim>\<open>x - y\<close>: the exact difference of two finite values, rounded; an
  infinity minus itself is \<^verbatim>\<open>NaN\<close>.
\<close>

fun minus_jsnum :: "jsnum \<Rightarrow> jsnum \<Rightarrow> jsnum" where
  "minus_jsnum NaN y = NaN"
| "minus_jsnum x NaN = NaN"
| "minus_jsnum (Fin x) (Fin y) = toBinary64 (x - y)"
| "minus_jsnum (Fin x) PosInf = NegInf"
| "minus_jsnum (Fin x) NegInf = PosInf"
| "minus_jsnum PosInf PosInf = NaN"
| "minus_jsnum NegInf NegInf = NaN"
| "minus_jsnum PosInf y = PosInf"
| "minus_jsnum NegInf y = NegInf"

text \<open>\<^verbatim>\<open>x > 0\<close>.\<close>

definition positive :: "jsnum \<Rightarrow> bool" where
  "positive x = (sgn_jsnum x = 1)"

subsection \<open>The built-in \<^verbatim>\<open>parseFloat\<close>\<close>

text \<open>
  \<^verbatim>\<open>parseFloat\<close> skips leading white space and reads the longest prefix that is a decimal
  literal: a sign, then \<^verbatim>\<open>Infinity\<close> or digits with an optional fraction and an optional
  exponent. No such prefix gives \<^verbatim>\<open>NaN\<close>. The result is the binary64 value nearest to the
  decimal value read.
\<close>

definition isDigit :: "char \<Rightarrow> bool" where
  "isDigit c = (c \<in> set ''0123456789'')"

definition digitValue :: "char \<Rightarrow> int" where
  "digitValue c = (case map_of (zip ''0123456789'' [0, 1, 2, 3, 4, 5, 6, 7, 8, 9]) c of
                     Some d \<Rightarrow> d | None \<Rightarrow> 0)"

definition digitsValue :: "string \<Rightarrow> int" where
  "digitsValue ds = foldl (\<lambda>a c. 10 * a + digitValue c) 0 ds"

definition exponentPart :: "string \<Rightarrow> int" where
  "exponentPart s =
     (case s of
        [] \<Rightarrow> 0
      | e # t \<Rightarrow>
          if e = CHR ''e'' \<or> e = CHR ''E'' then
            (let neg = (case t of [] \<Rightarrow> False | c # _ \<Rightarrow> c = CHR ''-'');
                 u = (case t of [] \<Rightarrow> [] | c # r \<Rightarrow> if c = CHR ''+'' \<or> c = CHR ''-'' then r else t);
                 ds = takeWhile isDigit u
             in if ds = [] then 0
                else if neg then - digitsValue ds else digitsValue ds)
          else 0)"

definition scale10 :: "real \<Rightarrow> int \<Rightarrow> real" where
  "scale10 x e = (if 0 \<le> e then x * 10 ^ nat e else x / 10 ^ nat (- e))"

definition unsignedDecimal :: "string \<Rightarrow> real option" where
  "unsignedDecimal s =
     (let ip = takeWhile isDigit s;
          r1 = dropWhile isDigit s;
          dot = (case r1 of [] \<Rightarrow> False | c # _ \<Rightarrow> c = CHR ''.'');
          fp = (if dot then takeWhile isDigit (tl r1) else []);
          r2 = (if dot then dropWhile isDigit (tl r1) else r1)
      in if ip = [] \<and> fp = [] then None
         else Some (scale10 (of_int (digitsValue (ip @ fp)) / 10 ^ length fp) (exponentPart r2)))"

definition parseFloat :: "string \<Rightarrow> jsnum" where
  "parseFloat s =
     (let t = trimStart s;
          neg = (case t of [] \<Rightarrow> False | c # _ \<Rightarrow> c = CHR ''-'');
          u = (case t of [] \<Rightarrow> [] | c # r \<Rightarrow> if c = CHR ''+'' \<or> c = CHR ''-'' then r else t)
      in if startsWith u ''Infinity'' then (if neg then NegInf else PosInf)
         else (case unsignedDecimal u of
                 None \<Rightarrow> NaN
               | Some v \<Rightarrow> toBinary64 (if neg then - v else v)))"

section \<open>Data model (\<^verbatim>\<open>types.ts\<close>)\<close>

subsection \<open>Raw records of the upstream catalogue\<close>

record Architecture =
  arch_modality :: string
  arch_input_modalities :: "string list option"
  arch_output_modalities :: "string list option"
  arch_tokenizer :: string
  arch_instruct_type :: "string option"

record RawPricing =
  price_prompt :: string
  price_completion :: string
  price_request :: "string option"
  price_image :: "string option"
  price_web_search :: "string option"
  price_internal_reasoning :: "string option"
  price_input_cache_read :: "string option"
  price_input_cache_write :: "string option"

record TopProvider =
  top_context_length :: "int option"
  top_max_completion_tokens :: "int option"
  top_is_moderated :: "bool option"

record PerRequestLimits =
  lim_prompt_tokens :: "int option"
  lim_completion_tokens :: "int option"

text \<open>A default parameter is a number, \<^verbatim>\<open>null\<close> or absent.\<close>

datatype nullableNumber = Undefined | Null | Number real

record DefaultParameters =
  def_temperature :: nullableNumber
  def_top_p :: nullableNumber
  def_frequency_penalty :: nullableNumber
  def_presence_penalty :: nullableNumber
  def_top_k :: nullableNumber

record OpenRouterModel =
  raw_id :: string
  raw_canonical_slug :: "string option"
  raw_name :: string
  raw_description :: "string option"
  raw_created :: "int option"
  raw_context_length :: int
  raw_max_completion_tokens :: "int option"
  raw_hugging_face_id :: "string option"
  raw_architecture :: "Architecture option"
  raw_pricing :: RawPricing
  raw_top_provider :: "TopProvider option"
  raw_per_request_limits :: "PerRequestLimits option"
  raw_supported_parameters :: "string list option"
  raw_default_parameters :: "DefaultParameters option"

subsection \<open>Normalised models\<close>

record ModelProvider =
  prov_id :: string
  prov_name :: string
  prov_color :: string
  prov_icon :: "string option"

record ModelPricing =
  promptPerMillion :: jsnum
  completionPerMillion :: jsnum
  isFree :: bool
  imagePerImage :: "jsnum option"
  requestCost :: "jsnum option"
  webSearchCost :: "jsnum option"
  reasoningPerMillion :: "jsnum option"
  cacheReadPerMillion :: "jsnum option"
  cacheWritePerMillion :: "jsnum option"

datatype LegacyModality = Text | TextImage | Multimodal

record ModelCapabilities =
  inputModalities :: "string list"
  outputModalities :: "string list"
  modalityString :: string
  supportsTools :: bool
  supportsReasoning :: bool
  supportsStructuredOutput :: bool
  supportsJsonMode :: bool
  supportsStreaming :: bool
  supportsTemperature :: bool
  supportsTopP :: bool
  supportsTopK :: bool
  supportsFrequencyPenalty :: bool
  supportsPresencePenalty :: bool
  supportsStopSequences :: bool
  supportsWebSearch :: bool
  isModerated :: bool
  supportsImages :: bool
  cap_modality :: LegacyModality
  instructType :: "string option"

record ModelDefaults =
  temperature :: nullableNumber
  topP :: nullableNumber
  topK :: nullableNumber
  frequencyPenalty :: nullableNumber
  presencePenalty :: nullableNumber

record RequestLimits =
  promptTokens :: "int option"
  completionTokens :: "int option"

datatype ModelSizeTier = Tiny | Small | Medium | Large | Massive

record LLMModel =
  model_id :: string
  slug :: string
  canonicalSlug :: "string option"
  model_name :: string
  model_description :: "string option"
  huggingFaceId :: "string option"
  provider :: ModelProvider
  contextLength :: int
  maxCompletionTokens :: int
  sizeTier :: ModelSizeTier
  pricing :: ModelPricing
  capabilities :: ModelCapabilities
  supportedParameters :: "string list"
  defaults :: ModelDefaults
  requestLimits :: "RequestLimits option"
  tokenizer :: "string option"
  createdAt :: "int option"
  updatedAt :: int

subsection \<open>The registry\<close>

datatype Source = Api | Snapshot | Fallback

record RegistryMetadata =
  version :: nat
  fetchedAt :: int
  expiresAt :: int
  modelCount :: nat
  providerCount :: nat
  source :: Source

record ModelRegistry =
  metadata :: RegistryMetadata
  models :: "LLMModel list"
  byId :: "string \<rightharpoonup> LLMModel"
  byProvider :: "string \<rightharpoonup> LLMModel list"
  byTier :: "ModelSizeTier \<Rightarrow> LLMModel list"

subsection \<open>Provider branding\<close>

record Branding =
  brand_name :: string
  brand_color :: string
  brand_icon :: "string option"

definition brand :: "string \<Rightarrow> string \<Rightarrow> string \<Rightarrow> Branding" where
  "brand n c i = \<lparr>brand_name = n, brand_color = c, brand_icon = Some i\<rparr>"

definition KNOWN_PROVIDERS :: "(string \<times> Branding) list" where
  "KNOWN_PROVIDERS = [
    (''anthropic'', brand ''Anthropic'' ''#D4A574'' ''lobe-icons:anthropic''),
    (''openai'', brand ''OpenAI'' ''#10A37F'' ''lobe-icons:openai''),
    (''google'', brand ''Google'' ''#4285F4'' ''lobe-icons:google-color''),
    (''meta-llama'', brand ''Meta'' ''#0668E1'' ''lobe-icons:meta-color''),
    (''mistralai'', brand ''Mistral'' ''#FF7000'' ''lobe-icons:mistral-color''),
    (''x-ai'', brand ''xAI'' ''#1DA1F2'' ''lobe-icons:xai''),
    (''deepseek'', brand ''DeepSeek'' ''#4D6BFE'' ''lobe-icons:deepseek-color''),
    (''cohere'', brand ''Cohere'' ''#D18EE2'' ''lobe-icons:cohere-color''),
    (''qwen'', brand ''Qwen'' ''#615EFF'' ''lobe-icons:qwen-color''),
    (''alibaba'', brand ''Alibaba'' ''#FF6A00'' ''lobe-icons:alibaba-color''),
    (''microsoft'', brand ''Microsoft'' ''#00A4EF'' ''lobe-icons:azure-color''),
    (''perplexity'', brand ''Perplexity'' ''#20808D'' ''lobe-icons:perplexity-color''),
    (''nvidia'', brand ''NVIDIA'' ''#76B900'' ''lobe-icons:nvidia-color''),
    (''nous'', brand ''Nous Research'' ''#8B5CF6'' ''lobe-icons:nousresearch''),
    (''nousresearch'', brand ''Nous Research'' ''#8B5CF6'' ''lobe-icons:nousresearch''),
    (''ai21'', brand ''AI21 Labs'' ''#6366F1'' ''lobe-icons:ai21-brand-color''),
    (''thudm'', brand ''Zhipu AI'' ''#00D4AA'' ''lobe-icons:zhipu-color''),
    (''01-ai'', brand ''01.AI'' ''#FF6B6B'' ''lobe-icons:yi-color''),
    (''inflection'', brand ''Inflection'' ''#7C3AED'' ''lobe-icons:inflection''),
    (''amazon'', brand ''Amazon'' ''#FF9900'' ''lobe-icons:bedrock-color''),
    (''databricks'', brand ''Databricks'' ''#FF3621'' ''lobe-icons:dbrx-color''),
    (''together'', brand ''Together'' ''#0EA5E9'' ''lobe-icons:together-color''),
    (''groq'', brand ''Groq'' ''#F55036'' ''lobe-icons:groq''),
    (''fireworks-ai'', brand ''Fireworks'' ''#FF6B35'' ''lobe-icons:fireworks-color''),
    (''deepinfra'', brand ''DeepInfra'' ''#3B82F6'' ''lobe-icons:deepinfra-color''),
    (''replicate'', brand ''Replicate'' ''#000000'' ''lobe-icons:replicate''),
    (''anyscale'', brand ''Anyscale'' ''#00D4FF'' ''lobe-icons:anyscale-color''),
    (''cloudflare'', brand ''Cloudflare'' ''#F6821F'' ''lobe-icons:cloudflare-color''),
    (''sambanova'', brand ''SambaNova'' ''#FF5722'' ''lobe-icons:sambanova-color''),
    (''cerebras'', brand ''Cerebras'' ''#00D9FF'' ''lobe-icons:cerebras-color''),
    (''baichuan'', brand ''Baichuan'' ''#4F46E5'' ''lobe-icons:baichuan-color''),
    (''moonshot'', brand ''Moonshot'' ''#1E293B'' ''lobe-icons:moonshot''),
    (''minimax'', brand ''MiniMax'' ''#3B82F6'' ''lobe-icons:minimax-color''),
    (''zhipu'', brand ''Zhipu AI'' ''#00D4AA'' ''lobe-icons:zhipu-color''),
    (''stepfun'', brand ''StepFun'' ''#6366F1'' ''lobe-icons:stepfun-color''),
    (''baidu'', brand ''Baidu'' ''#2932E1'' ''lobe-icons:baidu-color''),
    (''tencent'', brand ''Tencent'' ''#00C853'' ''lobe-icons:tencent-color''),
    (''bytedance'', brand ''ByteDance'' ''#3B82F6'' ''lobe-icons:bytedance-color''),
    (''huggingface'', brand ''Hugging Face'' ''#FFD21E'' ''lobe-icons:huggingface-color''),
    (''ollama'', brand ''Ollama'' ''#000000'' ''lobe-icons:ollama''),
    (''openrouter'', brand ''OpenRouter'' ''#6366F1'' ''lobe-icons:openrouter'')]"

definition UNKNOWN_PROVIDER :: Branding where
  "UNKNOWN_PROVIDER = brand ''Unknown'' ''#6B7280'' ''lobe-icons:openrouter''"

text \<open>The object \<^verbatim>\<open>{ id: providerId, ...branding }\<close>.\<close>

definition withId :: "string \<Rightarrow> Branding \<Rightarrow> ModelProvider" where
  "withId pid b =
     \<lparr>prov_id = pid, prov_name = brand_name b, prov_color = brand_color b,
      prov_icon = brand_icon b\<rparr>"

section \<open>The parser (\<^verbatim>\<open>parser.ts\<close>)\<close>

definition REGISTRY_VERSION :: nat where
  "REGISTRY_VERSION = 2"

definition CACHE_DURATION_MS :: int where
  "CACHE_DURATION_MS = 24 * 60 * 60 * 1000"

subsection \<open>Parsing helpers\<close>

text \<open>\<^verbatim>\<open>parts[0] || 'unknown'\<close>: the empty string is falsy.\<close>

definition parseProviderId :: "string \<Rightarrow> string" where
  "parseProviderId modelId =
     (case split CHR ''/'' modelId of
        [] \<Rightarrow> ''unknown''
      | p # _ \<Rightarrow> if p = [] then ''unknown'' else p)"

text \<open>\<^verbatim>\<open>parts.slice(1).join('/') || modelId\<close>.\<close>

definition parseModelSlug :: "string \<Rightarrow> string" where
  "parseModelSlug modelId =
     (let rest = join ''/'' (drop 1 (split CHR ''/'' modelId))
      in if rest = [] then modelId else rest)"

text \<open>\<^verbatim>\<open>word.charAt(0).toUpperCase() + word.slice(1)\<close>.\<close>

definition capitalize :: "string \<Rightarrow> string" where
  "capitalize word = toUpperCase (take 1 word) @ drop 1 word"

text \<open>
  \<^verbatim>\<open>KNOWN_PROVIDERS\<close> is read at its own keys. An identifier that names a member of
  \<^verbatim>\<open>Object.prototype\<close> would read that member instead and give a provider without name
  and colour, which \<open>ModelProvider\<close> cannot hold; \<open>buildRegistry\<close> raises on exactly these
  identifiers.
\<close>

definition getProviderInfo :: "string \<Rightarrow> ModelProvider" where
  "getProviderInfo providerId =
     (case map_of KNOWN_PROVIDERS providerId of
        Some known \<Rightarrow> withId providerId known
      | None \<Rightarrow>
          (let generatedName = join '' '' (map capitalize (split CHR ''-'' providerId))
           in (withId providerId UNKNOWN_PROVIDER)\<lparr>prov_name := generatedName\<rparr>))"

text \<open>\<^verbatim>\<open>parseFloat(s) || 0\<close>, for the two required prices.\<close>

definition perToken :: "string \<Rightarrow> jsnum" where
  "perToken s = (let x = parseFloat s in if truthy x then x else Fin 0)"

text \<open>\<^verbatim>\<open>s ? parseFloat(s) : undefined\<close>, for an optional price: the empty string is falsy.\<close>

definition optionalCost :: "string option \<Rightarrow> jsnum option" where
  "optionalCost s =
     (case s of None \<Rightarrow> None | Some t \<Rightarrow> if t = [] then None else Some (parseFloat t))"

text \<open>\<^verbatim>\<open>x ? x * 1_000_000 : undefined\<close>.\<close>

definition optionalPerMillion :: "jsnum option \<Rightarrow> jsnum option" where
  "optionalPerMillion x =
     (case x of
        None \<Rightarrow> None
      | Some v \<Rightarrow> if truthy v then Some (times_jsnum v (Fin 1000000)) else None)"

definition parsePricing :: "RawPricing \<Rightarrow> ModelPricing" where
  "parsePricing p =
     (let promptPerToken = perToken (price_prompt p);
          completionPerToken = perToken (price_completion p);
          requestCost = optionalCost (price_request p);
          imagePerImage = optionalCost (price_image p);
          webSearchCost = optionalCost (price_web_search p);
          reasoningPerToken = optionalCost (price_internal_reasoning p);
          cacheReadPerToken = optionalCost (price_input_cache_read p);
          cacheWritePerToken = optionalCost (price_input_cache_write p)
      in \<lparr>promptPerMillion = times_jsnum promptPerToken (Fin 1000000),
          completionPerMillion = times_jsnum completionPerToken (Fin 1000000),
          isFree = (promptPerToken = Fin 0 \<and> completionPerToken = Fin 0),
          imagePerImage = imagePerImage,
          requestCost = requestCost,
          webSearchCost = webSearchCost,
          reasoningPerMillion = optionalPerMillion reasoningPerToken,
          cacheReadPerMillion = optionalPerMillion cacheReadPerToken,
          cacheWritePerMillion = optionalPerMillion cacheWritePerToken\<rparr>)"

definition getSizeTier :: "int \<Rightarrow> ModelSizeTier" where
  "getSizeTier len =
     (if len < 8000 then Tiny
      else if len < 32000 then Small
      else if len < 128000 then Medium
      else if len < 500000 then Large
      else Massive)"

text \<open>\<^verbatim>\<open>model.architecture?.modality || 'text'\<close>.\<close>

definition modalityOrText :: "OpenRouterModel \<Rightarrow> string" where
  "modalityOrText model =
     (case raw_architecture model of
        None \<Rightarrow> ''text''
      | Some a \<Rightarrow> if arch_modality a = [] then ''text'' else arch_modality a)"

definition parseInputModalities :: "OpenRouterModel \<Rightarrow> string list" where
  "parseInputModalities model =
     (case (case raw_architecture model of None \<Rightarrow> None | Some a \<Rightarrow> arch_input_modalities a) of
        Some raw \<Rightarrow> filter (\<lambda>m. m \<in> set [''text'', ''image'', ''audio'', ''video'', ''file'']) raw
      | None \<Rightarrow>
          (let modality = modalityOrText model
           in [''text'']
              @ (if includesStr modality ''image'' then [''image''] else [])
              @ (if includesStr modality ''audio'' then [''audio''] else [])
              @ (if includesStr modality ''video'' then [''video''] else [])))"

definition parseOutputModalities :: "OpenRouterModel \<Rightarrow> string list" where
  "parseOutputModalities model =
     (case (case raw_architecture model of None \<Rightarrow> None | Some a \<Rightarrow> arch_output_modalities a) of
        Some raw \<Rightarrow> filter (\<lambda>m. m \<in> set [''text'', ''image'', ''audio'']) raw
      | None \<Rightarrow> [''text''])"

definition hasParam :: "OpenRouterModel \<Rightarrow> string \<Rightarrow> bool" where
  "hasParam model param =
     (case raw_supported_parameters model of None \<Rightarrow> False | Some ps \<Rightarrow> param \<in> set ps)"

definition parseCapabilities :: "OpenRouterModel \<Rightarrow> ModelCapabilities" where
  "parseCapabilities model =
     (let modalityString = modalityOrText model;
          inputModalities = parseInputModalities model;
          outputModalities = parseOutputModalities model;
          hasImageInput = (''image'' \<in> set inputModalities);
          hasAudioInput = (''audio'' \<in> set inputModalities);
          hasVideoInput = (''video'' \<in> set inputModalities);
          isMultimodal = (hasAudioInput \<or> hasVideoInput
                          \<or> (hasImageInput \<and> length outputModalities > 1));
          legacyModality = (if isMultimodal then Multimodal
                            else if hasImageInput then TextImage else Text)
      in \<lparr>inputModalities = inputModalities,
          outputModalities = outputModalities,
          modalityString = modalityString,
          supportsTools = (hasParam model ''tools'' \<or> hasParam model ''tool_choice''),
          supportsReasoning = (hasParam model ''reasoning'' \<or> hasParam model ''include_reasoning''),
          supportsStructuredOutput = hasParam model ''structured_outputs'',
          supportsJsonMode = hasParam model ''response_format'',
          supportsStreaming = True,
          supportsTemperature = hasParam model ''temperature'',
          supportsTopP = hasParam model ''top_p'',
          supportsTopK = hasParam model ''top_k'',
          supportsFrequencyPenalty = hasParam model ''frequency_penalty'',
          supportsPresencePenalty = hasParam model ''presence_penalty'',
          supportsStopSequences = hasParam model ''stop'',
          supportsWebSearch =
            (case price_web_search (raw_pricing model) of
               None \<Rightarrow> False
             | Some s \<Rightarrow> if s = [] then False else positive (parseFloat s)),
          isModerated =
            (case (case raw_top_provider model of None \<Rightarrow> None | Some t \<Rightarrow> top_is_moderated t) of
               None \<Rightarrow> False | Some b \<Rightarrow> b),
          supportsImages = hasImageInput,
          cap_modality = legacyModality,
          instructType =
            (case raw_architecture model of None \<Rightarrow> None | Some a \<Rightarrow> arch_instruct_type a)\<rparr>)"

definition parseDefaults :: "OpenRouterModel \<Rightarrow> ModelDefaults" where
  "parseDefaults model =
     (case raw_default_parameters model of
        None \<Rightarrow>
          \<lparr>temperature = Undefined, topP = Undefined, topK = Undefined,
           frequencyPenalty = Undefined, presencePenalty = Undefined\<rparr>
      | Some d \<Rightarrow>
          \<lparr>temperature = def_temperature d, topP = def_top_p d, topK = def_top_k d,
           frequencyPenalty = def_frequency_penalty d,
           presencePenalty = def_presence_penalty d\<rparr>)"

definition parseRequestLimits :: "OpenRouterModel \<Rightarrow> RequestLimits option" where
  "parseRequestLimits model =
     (case raw_per_request_limits model of
        None \<Rightarrow> None
      | Some l \<Rightarrow>
          Some \<lparr>promptTokens = lim_prompt_tokens l, completionTokens = lim_completion_tokens l\<rparr>)"

subsection \<open>The main transformation\<close>

text \<open>
  \<^verbatim>\<open>new Date(t).toISOString()\<close> raises a \<^verbatim>\<open>RangeError\<close> when \<open>t\<close> is not a valid time
  value, that is, beyond 8.64e15 milliseconds from the epoch.
\<close>

definition maxTimeValue :: int where
  "maxTimeValue = 8640000000000000"

definition toISOString :: "int \<Rightarrow> error + int" where
  "toISOString t = (if \<bar>t\<bar> \<le> maxTimeValue then Inr t else Inl RangeError)"

text \<open>\<^verbatim>\<open>raw.created ? new Date(raw.created * 1000).toISOString() : undefined\<close>.\<close>

definition createdAtOf :: "OpenRouterModel \<Rightarrow> error + int option" where
  "createdAtOf raw =
     (case raw_created raw of
        None \<Rightarrow> Inr None
      | Some c \<Rightarrow>
          if c = 0 then Inr None
          else (case toISOString (c * 1000) of Inl e \<Rightarrow> Inl e | Inr t \<Rightarrow> Inr (Some t)))"

text \<open>
  \<^verbatim>\<open>raw.max_completion_tokens || raw.top_provider?.max_completion_tokens ||
  Math.min(raw.context_length, 4096)\<close>: an absent value and zero are both falsy.
\<close>

definition maxCompletionTokensOf :: "OpenRouterModel \<Rightarrow> int" where
  "maxCompletionTokensOf raw =
     (let explicit = (case raw_max_completion_tokens raw of None \<Rightarrow> 0 | Some n \<Rightarrow> n);
          override =
            (case (case raw_top_provider raw of
                     None \<Rightarrow> None | Some t \<Rightarrow> top_max_completion_tokens t) of
               None \<Rightarrow> 0 | Some n \<Rightarrow> n)
      in if explicit \<noteq> 0 then explicit
         else if override \<noteq> 0 then override
         else min (raw_context_length raw) 4096)"

definition transformModel :: "int \<Rightarrow> OpenRouterModel \<Rightarrow> error + LLMModel" where
  "transformModel now raw =
     (let providerId = parseProviderId (raw_id raw)
      in case createdAtOf raw of
           Inl e \<Rightarrow> Inl e
         | Inr created \<Rightarrow>
             Inr \<lparr>model_id = raw_id raw,
                  slug = parseModelSlug (raw_id raw),
                  canonicalSlug = raw_canonical_slug raw,
                  model_name = raw_name raw,
                  model_description = raw_description raw,
                  huggingFaceId =
                    (case raw_hugging_face_id raw of
                       None \<Rightarrow> None | Some h \<Rightarrow> if h = [] then None else Some h),
                  provider = getProviderInfo providerId,
                  contextLength = raw_context_length raw,
                  maxCompletionTokens = maxCompletionTokensOf raw,
                  sizeTier = getSizeTier (raw_context_length raw),
                  pricing = parsePricing (raw_pricing raw),
                  capabilities = parseCapabilities raw,
                  supportedParameters =
                    (case raw_supported_parameters raw of None \<Rightarrow> [] | Some ps \<Rightarrow> ps),
                  defaults = parseDefaults raw,
                  requestLimits = parseRequestLimits raw,
                  tokenizer =
                    (case raw_architecture raw of None \<Rightarrow> None | Some a \<Rightarrow> Some (arch_tokenizer a)),
                  createdAt = created,
                  updatedAt = now\<rparr>)"

subsection \<open>\<^verbatim>\<open>Array.prototype.sort\<close> with a comparator\<close>

text \<open>
  The built-in sort is stable. It is modelled by insertion from the right: an element goes
  in front of the first element that the comparator does not put before it. For a
  comparator that is a consistent ordering every stable sort gives this result. The
  comparator's result is used through its sign.
\<close>

fun insertBy :: "('a \<Rightarrow> 'a \<Rightarrow> int) \<Rightarrow> 'a \<Rightarrow> 'a list \<Rightarrow> 'a list" where
  "insertBy cmp x [] = [x]"
| "insertBy cmp x (y # ys) = (if cmp x y \<le> 0 then x # y # ys else y # insertBy cmp x ys)"

definition sortBy :: "('a \<Rightarrow> 'a \<Rightarrow> int) \<Rightarrow> 'a list \<Rightarrow> 'a list" where
  "sortBy cmp xs = foldr (insertBy cmp) xs []"

subsection \<open>Transforming a list and building the registry\<close>

text \<open>
  \<^verbatim>\<open>rawModels.map(transformModel)\<close>: each call reads the clock, \<open>clock i\<close> for the record
  at index \<open>i\<close>, and the first exception ends the loop.
\<close>

fun mapTransform :: "(nat \<Rightarrow> int) \<Rightarrow> nat \<Rightarrow> OpenRouterModel list \<Rightarrow> error + LLMModel list" where
  "mapTransform clock i [] = Inr []"
| "mapTransform clock i (raw # raws) =
     (case transformModel (clock i) raw of
        Inl e \<Rightarrow> Inl e
      | Inr m \<Rightarrow>
          (case mapTransform clock (Suc i) raws of
             Inl e \<Rightarrow> Inl e
           | Inr ms \<Rightarrow> Inr (m # ms)))"

definition transformModels :: "(nat \<Rightarrow> int) \<Rightarrow> OpenRouterModel list \<Rightarrow> error + LLMModel list" where
  "transformModels clock rawModels =
     (case mapTransform clock 0 rawModels of
        Inl e \<Rightarrow> Inl e
      | Inr ms \<Rightarrow> Inr (sortBy (\<lambda>a b. contextLength b - contextLength a) ms))"

text \<open>
  The keys that every object literal inherits from \<^verbatim>\<open>Object.prototype\<close>. For such a key
  \<^verbatim>\<open>byProvider[providerId]\<close> is truthy before any assignment, no array is created, and
  \<^verbatim>\<open>byProvider[providerId].push(model)\<close> raises a \<^verbatim>\<open>TypeError\<close>.
\<close>

definition inheritedKeys :: "string list" where
  "inheritedKeys =
     [''constructor'', ''hasOwnProperty'', ''isPrototypeOf'', ''propertyIsEnumerable'',
      ''toLocaleString'', ''toString'', ''valueOf'', ''__proto__'',
      ''__defineGetter__'', ''__defineSetter__'', ''__lookupGetter__'', ''__lookupSetter__'']"

record Indices =
  ix_byId :: "string \<rightharpoonup> LLMModel"
  ix_byProvider :: "string \<rightharpoonup> LLMModel list"
  ix_byTier :: "ModelSizeTier \<Rightarrow> LLMModel list"

definition emptyIndices :: Indices where
  "emptyIndices = \<lparr>ix_byId = Map.empty, ix_byProvider = Map.empty, ix_byTier = (\<lambda>t. [])\<rparr>"

text \<open>One pass of the loop \<^verbatim>\<open>for (const model of models)\<close>.\<close>

definition indexModel :: "Indices \<Rightarrow> LLMModel \<Rightarrow> error + Indices" where
  "indexModel ix model =
     (let byId' = (ix_byId ix)(model_id model \<mapsto> model);
          providerId = prov_id (provider model)
      in if providerId \<in> set inheritedKeys then Inl TypeError
         else
           (let bucket = (case ix_byProvider ix providerId of None \<Rightarrow> [] | Some ms \<Rightarrow> ms);
                byProvider' = (ix_byProvider ix)(providerId \<mapsto> bucket @ [model]);
                byTier' = (ix_byTier ix)(sizeTier model := ix_byTier ix (sizeTier model) @ [model])
            in Inr \<lparr>ix_byId = byId', ix_byProvider = byProvider', ix_byTier = byTier'\<rparr>))"

fun indexModels :: "Indices \<Rightarrow> LLMModel list \<Rightarrow> error + Indices" where
  "indexModels ix [] = Inr ix"
| "indexModels ix (model # ms) =
     (case indexModel ix model of Inl e \<Rightarrow> Inl e | Inr ix' \<Rightarrow> indexModels ix' ms)"

definition buildRegistry :: "int \<Rightarrow> LLMModel list \<Rightarrow> Source \<Rightarrow> error + ModelRegistry" where
  "buildRegistry now ms src =
     (let expires = now + CACHE_DURATION_MS;
          providerSet = remdups (map (\<lambda>m. prov_id (provider m)) ms);
          meta = \<lparr>version = REGISTRY_VERSION, fetchedAt = now, expiresAt = expires,
                  modelCount = length ms, providerCount = length providerSet, source = src\<rparr>
      in case indexModels emptyIndices ms of
           Inl e \<Rightarrow> Inl e
         | Inr ix \<Rightarrow>
             Inr \<lparr>metadata = meta, models = ms, byId = ix_byId ix,
                  byProvider = ix_byProvider ix, byTier = ix_byTier ix\<rparr>)"

section \<open>The hardcoded models (\<^verbatim>\<open>fallback.ts\<close>)\<close>

record CapabilityOpts =
  o_supportsImages :: "bool option"
  o_supportsTools :: "bool option"
  o_supportsReasoning :: "bool option"
  o_isModerated :: "bool option"
  o_modality :: "LegacyModality option"

definition createCapabilities :: "CapabilityOpts \<Rightarrow> ModelCapabilities" where
  "createCapabilities opts =
     (let supportsImages = (case o_supportsImages opts of None \<Rightarrow> False | Some b \<Rightarrow> b);
          modality = (case o_modality opts of
                        None \<Rightarrow> (if supportsImages then TextImage else Text)
                      | Some m \<Rightarrow> m)
      in \<lparr>inputModalities = (if supportsImages then [''text'', ''image''] else [''text'']),
          outputModalities = [''text''],
          modalityString = (if supportsImages then ''text+image->text'' else ''text->text''),
          supportsTools = (case o_supportsTools opts of None \<Rightarrow> True | Some b \<Rightarrow> b),
          supportsReasoning = (case o_supportsReasoning opts of None \<Rightarrow> False | Some b \<Rightarrow> b),
          supportsStructuredOutput = True,
          supportsJsonMode = True,
          supportsStreaming = True,
          supportsTemperature = True,
          supportsTopP = True,
          supportsTopK = False,
          supportsFrequencyPenalty = True,
          supportsPresencePenalty = True,
          supportsStopSequences = True,
          supportsWebSearch = False,
          isModerated = (case o_isModerated opts of None \<Rightarrow> False | Some b \<Rightarrow> b),
          supportsImages = supportsImages,
          cap_modality = modality,
          instructType = None\<rparr>)"

definition createPricing :: "real \<Rightarrow> real \<Rightarrow> ModelPricing" where
  "createPricing p c =
     \<lparr>promptPerMillion = Fin p,
      completionPerMillion = Fin c,
      isFree = (p = 0 \<and> c = 0),
      imagePerImage = None,
      requestCost = None,
      webSearchCost = None,
      reasoningPerMillion = None,
      cacheReadPerMillion = None,
      cacheWritePerMillion = None\<rparr>"

definition DEFAULT_DEFAULTS :: ModelDefaults where
  "DEFAULT_DEFAULTS =
     \<lparr>temperature = Number 1, topP = Number 1, topK = Undefined,
      frequencyPenalty = Undefined, presencePenalty = Undefined\<rparr>"

text \<open>The literal \<^verbatim>\<open>{}\<close> given as \<^verbatim>\<open>defaults\<close>.\<close>

definition noDefaults :: ModelDefaults where
  "noDefaults =
     \<lparr>temperature = Undefined, topP = Undefined, topK = Undefined,
      frequencyPenalty = Undefined, presencePenalty = Undefined\<rparr>"

text \<open>
  One object literal of the list. Its provider is
  \<^verbatim>\<open>{ id: p, ...KNOWN_PROVIDERS[p]! }\<close> for a key \<open>p\<close> of the table, and \<^verbatim>\<open>updatedAt\<close> is
  the clock reading when the module was loaded.
\<close>

definition fallbackModel ::
  "string \<Rightarrow> string \<Rightarrow> string \<Rightarrow> string \<Rightarrow> int \<Rightarrow> int \<Rightarrow> ModelSizeTier \<Rightarrow> ModelPricing
   \<Rightarrow> ModelCapabilities \<Rightarrow> string list \<Rightarrow> ModelDefaults \<Rightarrow> int \<Rightarrow> LLMModel" where
  "fallbackModel i s n p ctx maxTokens tier price caps params dflt loadedAt =
     \<lparr>model_id = i, slug = s, canonicalSlug = None, model_name = n, model_description = None,
      huggingFaceId = None, provider = withId p (the (map_of KNOWN_PROVIDERS p)),
      contextLength = ctx, maxCompletionTokens = maxTokens, sizeTier = tier,
      pricing = price, capabilities = caps, supportedParameters = params, defaults = dflt,
      requestLimits = None, tokenizer = None, createdAt = None, updatedAt = loadedAt\<rparr>"

definition FALLBACK_MODELS :: "(nat \<Rightarrow> int) \<Rightarrow> LLMModel list" where
  "FALLBACK_MODELS loaded = [
    fallbackModel ''anthropic/claude-sonnet-4'' ''claude-sonnet-4'' ''Claude Sonnet 4'' ''anthropic'' 200000 64000 Large
      (createPricing 3 15)
      (createCapabilities \<lparr>o_supportsImages = Some True, o_supportsTools = Some True,
         o_supportsReasoning = None, o_isModerated = None, o_modality = None\<rparr>)
      [''temperature'', ''top_p'', ''stop'', ''max_tokens'', ''tools'', ''tool_choice'']
      DEFAULT_DEFAULTS (loaded 0),
    fallbackModel ''anthropic/claude-3.5-sonnet'' ''claude-3.5-sonnet'' ''Claude 3.5 Sonnet'' ''anthropic'' 200000 8192 Large
      (createPricing 3 15)
      (createCapabilities \<lparr>o_supportsImages = Some True, o_supportsTools = Some True,
         o_supportsReasoning = None, o_isModerated = None, o_modality = None\<rparr>)
      [''temperature'', ''top_p'', ''stop'', ''max_tokens'', ''tools'', ''tool_choice'']
      DEFAULT_DEFAULTS (loaded 1),
    fallbackModel ''anthropic/claude-opus-4'' ''claude-opus-4'' ''Claude Opus 4'' ''anthropic'' 200000 32000 Large
      (createPricing 15 75)
      (createCapabilities \<lparr>o_supportsImages = Some True, o_supportsTools = Some True,
         o_supportsReasoning = Some True, o_isModerated = None, o_modality = None\<rparr>)
      [''temperature'', ''top_p'', ''stop'', ''max_tokens'', ''tools'', ''tool_choice'', ''reasoning'']
      DEFAULT_DEFAULTS (loaded 2),
    fallbackModel ''openai/gpt-4o'' ''gpt-4o'' ''GPT-4o'' ''openai'' 128000 16384 Medium
      (createPricing 2.5 10)
      (createCapabilities \<lparr>o_supportsImages = Some True, o_supportsTools = Some True,
         o_supportsReasoning = None, o_isModerated = Some True, o_modality = None\<rparr>)
      [''temperature'', ''top_p'', ''stop'', ''max_tokens'', ''tools'', ''tool_choice'', ''response_format'']
      DEFAULT_DEFAULTS (loaded 3),
    fallbackModel ''openai/gpt-4-turbo'' ''gpt-4-turbo'' ''GPT-4 Turbo'' ''openai'' 128000 4096 Medium
      (createPricing 10 30)
      (createCapabilities \<lparr>o_supportsImages = Some True, o_supportsTools = Some True,
         o_supportsReasoning = None, o_isModerated = Some True, o_modality = None\<rparr>)
      [''temperature'', ''top_p'', ''stop'', ''max_tokens'', ''tools'', ''tool_choice'', ''response_format'']
      DEFAULT_DEFAULTS (loaded 4),
    fallbackModel ''openai/o1'' ''o1'' ''o1'' ''openai'' 200000 100000 Large
      (createPricing 15 60)
      (createCapabilities \<lparr>o_supportsImages = Some True, o_supportsTools = Some True,
         o_supportsReasoning = Some True, o_isModerated = Some True, o_modality = None\<rparr>)
      [''max_tokens'', ''reasoning'']
      noDefaults (loaded 5),
    fallbackModel ''google/gemini-2.5-pro-preview'' ''gemini-2.5-pro-preview'' ''Gemini 2.5 Pro'' ''google'' 1000000 65536 Massive
      (createPricing 1.25 10)
      (createCapabilities \<lparr>o_supportsImages = Some True, o_supportsTools = Some True,
         o_supportsReasoning = None, o_isModerated = None, o_modality = Some Multimodal\<rparr>)
      [''temperature'', ''top_p'', ''top_k'', ''stop'', ''max_tokens'', ''tools'']
      DEFAULT_DEFAULTS (loaded 6),
    fallbackModel ''google/gemini-2.0-flash-exp'' ''gemini-2.0-flash-exp'' ''Gemini 2.0 Flash'' ''google'' 1000000 8192 Massive
      (createPricing 0 0)
      (createCapabilities \<lparr>o_supportsImages = Some True, o_supportsTools = Some True,
         o_supportsReasoning = None, o_isModerated = None, o_modality = Some Multimodal\<rparr>)
      [''temperature'', ''top_p'', ''top_k'', ''stop'', ''max_tokens'']
      DEFAULT_DEFAULTS (loaded 7),
    fallbackModel ''deepseek/deepseek-chat'' ''deepseek-chat'' ''DeepSeek Chat'' ''deepseek'' 128000 8192 Medium
      (createPricing 0.14 0.28)
      (createCapabilities \<lparr>o_supportsImages = Some False, o_supportsTools = Some True,
         o_supportsReasoning = None, o_isModerated = None, o_modality = None\<rparr>)
      [''temperature'', ''top_p'', ''stop'', ''max_tokens'', ''tools'']
      DEFAULT_DEFAULTS (loaded 8),
    fallbackModel ''deepseek/deepseek-r1'' ''deepseek-r1'' ''DeepSeek R1'' ''deepseek'' 64000 8192 Medium
      (createPricing 0.55 2.19)
      (createCapabilities \<lparr>o_supportsImages = Some False, o_supportsTools = Some True,
         o_supportsReasoning = Some True, o_isModerated = None, o_modality = None\<rparr>)
      [''temperature'', ''top_p'', ''stop'', ''max_tokens'', ''reasoning'']
      DEFAULT_DEFAULTS (loaded 9),
    fallbackModel ''meta-llama/llama-3.3-70b-instruct'' ''llama-3.3-70b-instruct'' ''Llama 3.3 70B'' ''meta-llama'' 131072 8192 Medium
      (createPricing 0.12 0.3)
      (createCapabilities \<lparr>o_supportsImages = Some False, o_supportsTools = Some True,
         o_supportsReasoning = None, o_isModerated = None, o_modality = None\<rparr>)
      [''temperature'', ''top_p'', ''stop'', ''max_tokens'']
      DEFAULT_DEFAULTS (loaded 10),
    fallbackModel ''mistralai/mistral-large-2411'' ''mistral-large-2411'' ''Mistral Large'' ''mistralai'' 128000 8192 Medium
      (createPricing 2 6)
      (createCapabilities \<lparr>o_supportsImages = Some False, o_supportsTools = Some True,
         o_supportsReasoning = None, o_isModerated = None, o_modality = None\<rparr>)
      [''temperature'', ''top_p'', ''stop'', ''max_tokens'', ''tools'']
      DEFAULT_DEFAULTS (loaded 11),
    fallbackModel ''qwen/qwen-2.5-72b-instruct'' ''qwen-2.5-72b-instruct'' ''Qwen 2.5 72B'' ''qwen'' 131072 8192 Medium
      (createPricing 0.35 0.4)
      (createCapabilities \<lparr>o_supportsImages = Some False, o_supportsTools = Some True,
         o_supportsReasoning = None, o_isModerated = None, o_modality = None\<rparr>)
      [''temperature'', ''top_p'', ''stop'', ''max_tokens'']
      DEFAULT_DEFAULTS (loaded 12),
    fallbackModel ''x-ai/grok-2'' ''grok-2'' ''Grok 2'' ''x-ai'' 131072 8192 Medium
      (createPricing 2 10)
      (createCapabilities \<lparr>o_supportsImages = Some True, o_supportsTools = Some True,
         o_supportsReasoning = None, o_isModerated = None, o_modality = None\<rparr>)
      [''temperature'', ''top_p'', ''stop'', ''max_tokens'', ''tools'']
      DEFAULT_DEFAULTS (loaded 13)]"

section \<open>The fetcher (\<^verbatim>\<open>fetcher.ts\<close>)\<close>

text \<open>
  What the outside world hands to one call. The member \<^verbatim>\<open>data\<close> of a parsed body is
  absent (or falsy), a truthy value that is no array, or an array of records. The body
  itself may fail to parse, or parse to \<^verbatim>\<open>null\<close>, whose member cannot be read.
\<close>

datatype DataField = DataAbsent | DataNonArray | DataArray "OpenRouterModel list"

datatype JsonBody = NotJson | JsonNull | JsonValue DataField

datatype FetchOutcome = FetchRejected | Response nat JsonBody

datatype SnapshotImport = ImportRejected | Imported DataField

text \<open>What \<^verbatim>\<open>data.data || []\<close> evaluates to.\<close>

datatype RawModels = NonArray | Models "OpenRouterModel list"

record Environment =
  env_api :: FetchOutcome
  env_apiClock :: "nat \<Rightarrow> int"
  env_apiNow :: int
  env_snapshot :: SnapshotImport
  env_snapshotClock :: "nat \<Rightarrow> int"
  env_snapshotNow :: int
  env_loaded :: "nat \<Rightarrow> int"
  env_fallbackNow :: int

text \<open>\<^verbatim>\<open>response.ok\<close> holds for the status codes 200 to 299.\<close>

definition fetchFromOpenRouter :: "FetchOutcome \<Rightarrow> error + RawModels" where
  "fetchFromOpenRouter outcome =
     (case outcome of
        FetchRejected \<Rightarrow> Inl FetchError
      | Response status body \<Rightarrow>
          if \<not> (200 \<le> status \<and> status \<le> 299) then Inl (ApiError status)
          else (case body of
                  NotJson \<Rightarrow> Inl SyntaxError
                | JsonNull \<Rightarrow> Inl TypeError
                | JsonValue DataAbsent \<Rightarrow> Inr (Models [])
                | JsonValue DataNonArray \<Rightarrow> Inr NonArray
                | JsonValue (DataArray rs) \<Rightarrow> Inr (Models rs)))"

text \<open>A value that is no array has no method \<^verbatim>\<open>map\<close>: \<^verbatim>\<open>transformModels\<close> raises.\<close>

definition fetchRegistry :: "FetchOutcome \<Rightarrow> (nat \<Rightarrow> int) \<Rightarrow> int \<Rightarrow> error + ModelRegistry" where
  "fetchRegistry outcome clock now =
     (case fetchFromOpenRouter outcome of
        Inl e \<Rightarrow> Inl e
      | Inr NonArray \<Rightarrow> Inl TypeError
      | Inr (Models rawModels) \<Rightarrow>
          (case transformModels clock rawModels of
             Inl e \<Rightarrow> Inl e
           | Inr ms \<Rightarrow> buildRegistry now ms Api))"

text \<open>The whole body is inside \<^verbatim>\<open>try\<close>: every exception becomes \<^verbatim>\<open>null\<close>.\<close>

definition loadFromSnapshot :: "SnapshotImport \<Rightarrow> (nat \<Rightarrow> int) \<Rightarrow> int \<Rightarrow> ModelRegistry option" where
  "loadFromSnapshot snapshot clock now =
     (case snapshot of
        ImportRejected \<Rightarrow> None
      | Imported DataAbsent \<Rightarrow> None
      | Imported DataNonArray \<Rightarrow> None
      | Imported (DataArray rawModels) \<Rightarrow>
          (case transformModels clock rawModels of
             Inl e \<Rightarrow> None
           | Inr ms \<Rightarrow>
               (case buildRegistry now ms Snapshot of
                  Inl e \<Rightarrow> None
                | Inr reg \<Rightarrow> Some reg)))"

definition getFallbackRegistry :: "(nat \<Rightarrow> int) \<Rightarrow> int \<Rightarrow> error + ModelRegistry" where
  "getFallbackRegistry loaded now = buildRegistry now (FALLBACK_MODELS loaded) Fallback"

definition fetchRegistryWithFallback :: "Environment \<Rightarrow> error + ModelRegistry" where
  "fetchRegistryWithFallback env =
     (case fetchRegistry (env_api env) (env_apiClock env) (env_apiNow env) of
        Inr reg \<Rightarrow> Inr reg
      | Inl apiError \<Rightarrow>
          (case loadFromSnapshot (env_snapshot env) (env_snapshotClock env) (env_snapshotNow env) of
             Some snapshotRegistry \<Rightarrow> Inr snapshotRegistry
           | None \<Rightarrow> getFallbackRegistry (env_loaded env) (env_fallbackNow env)))"

section \<open>Lookup and queries (\<^verbatim>\<open>utils.ts\<close>)\<close>

subsection \<open>\<^verbatim>\<open>findModel\<close>\<close>

text \<open>\<^verbatim>\<open>s.replace(/[-.\s]/g, '')\<close>.\<close>

definition stripFuzzy :: "string \<Rightarrow> string" where
  "stripFuzzy s = filter (\<lambda>c. c \<noteq> CHR ''-'' \<and> c \<noteq> CHR ''.'' \<and> \<not> isWhiteSpace c) s"

text \<open>The five predicates handed to \<^verbatim>\<open>models.find\<close>, in the order of the source.\<close>

definition exactIdMatch :: "string \<Rightarrow> LLMModel \<Rightarrow> bool" where
  "exactIdMatch normalized m = (toLowerCase (model_id m) = normalized)"

definition exactSlugMatch :: "string \<Rightarrow> LLMModel \<Rightarrow> bool" where
  "exactSlugMatch normalized m = (toLowerCase (slug m) = normalized)"

definition partialIdMatch :: "string \<Rightarrow> LLMModel \<Rightarrow> bool" where
  "partialIdMatch normalized m = endsWith (toLowerCase (model_id m)) (''/'' @ normalized)"

definition nameContainsMatch :: "string \<Rightarrow> LLMModel \<Rightarrow> bool" where
  "nameContainsMatch normalized m = includesStr (toLowerCase (model_name m)) normalized"

definition fuzzyMatch :: "string \<Rightarrow> LLMModel \<Rightarrow> bool" where
  "fuzzyMatch normalized m =
     (let fuzzyQuery = stripFuzzy normalized;
          fuzzyId = stripFuzzy (toLowerCase (model_id m));
          fuzzySlug = stripFuzzy (toLowerCase (slug m));
          fuzzyName = stripFuzzy (toLowerCase (model_name m))
      in includesStr fuzzyId fuzzyQuery \<or> includesStr fuzzySlug fuzzyQuery
         \<or> includesStr fuzzyName fuzzyQuery)"

definition findModel :: "string \<Rightarrow> LLMModel list \<Rightarrow> LLMModel option" where
  "findModel query ms =
     (let normalized = trim (toLowerCase query)
      in case find (exactIdMatch normalized) ms of
           Some exactId \<Rightarrow> Some exactId
         | None \<Rightarrow>
        (case find (exactSlugMatch normalized) ms of
           Some exactSlug \<Rightarrow> Some exactSlug
         | None \<Rightarrow>
        (case find (partialIdMatch normalized) ms of
           Some partialId \<Rightarrow> Some partialId
         | None \<Rightarrow>
        (case find (nameContainsMatch normalized) ms of
           Some nameContains \<Rightarrow> Some nameContains
         | None \<Rightarrow> find (fuzzyMatch normalized) ms))))"

subsection \<open>\<^verbatim>\<open>queryModels\<close>\<close>

datatype 'a OneOrMany = One 'a | Many "'a list"

datatype SortKey = ByContext | ByPrice | ByName | ByProvider

datatype SortOrder = Asc | Desc

record ModelQueryOptions =
  opt_provider :: "string OneOrMany option"
  opt_minContext :: "int option"
  opt_maxContext :: "int option"
  opt_tier :: "ModelSizeTier OneOrMany option"
  opt_isFree :: "bool option"
  opt_supportsImages :: "bool option"
  opt_supportsTools :: "bool option"
  opt_supportsReasoning :: "bool option"
  opt_supportsStructuredOutput :: "bool option"
  opt_inputModality :: "string OneOrMany option"
  opt_search :: "string option"
  opt_sortBy :: "SortKey option"
  opt_sortOrder :: "SortOrder option"
  opt_limit :: "int option"

text \<open>
  Arrays live in a heap, addressed by their position in it, so that copying, replacing
  and sorting in place are distinct. \<^verbatim>\<open>[...xs]\<close>, \<^verbatim>\<open>filter\<close> and \<^verbatim>\<open>slice\<close> allocate a new
  array; \<^verbatim>\<open>sort\<close> overwrites the array it is called on.
\<close>

type_synonym heap = "LLMModel list list"

definition alloc :: "heap \<Rightarrow> LLMModel list \<Rightarrow> heap \<times> nat" where
  "alloc h xs = (h @ [xs], length h)"

definition content :: "heap \<Rightarrow> nat \<Rightarrow> LLMModel list" where
  "content h a = h ! a"

definition overwrite :: "heap \<Rightarrow> nat \<Rightarrow> LLMModel list \<Rightarrow> heap" where
  "overwrite h a xs = h[a := xs]"

text \<open>The array a variable refers to, read off a heap and an address.\<close>

definition resultOf :: "heap \<times> nat \<Rightarrow> LLMModel list" where
  "resultOf st = content (fst st) (snd st)"

text \<open>
  One guarded step \<^verbatim>\<open>if (...) { results = results.filter(...) }\<close> (or \<^verbatim>\<open>slice\<close>): the
  stage \<open>f\<close> yields \<open>None\<close> when the guard is false and the new array otherwise, which is
  allocated and becomes \<^verbatim>\<open>results\<close>.
\<close>

definition replaceWith :: "(LLMModel list \<Rightarrow> LLMModel list option) \<Rightarrow> heap \<times> nat \<Rightarrow> heap \<times> nat" where
  "replaceWith f st = (case f (resultOf st) of None \<Rightarrow> st | Some ys \<Rightarrow> alloc (fst st) ys)"

text \<open>The guarded step \<^verbatim>\<open>if (...) { results.sort(...) }\<close>: the array is overwritten.\<close>

definition sortInPlace :: "(LLMModel list \<Rightarrow> LLMModel list option) \<Rightarrow> heap \<times> nat \<Rightarrow> heap \<times> nat" where
  "sortInPlace f st =
     (case f (resultOf st) of
        None \<Rightarrow> st
      | Some ys \<Rightarrow> (overwrite (fst st) (snd st) ys, snd st))"

text \<open>\<^verbatim>\<open>Array.isArray(x) ? x : [x]\<close>.\<close>

definition asList :: "'a OneOrMany \<Rightarrow> 'a list" where
  "asList x = (case x of One v \<Rightarrow> [v] | Many vs \<Rightarrow> vs)"

definition providerMatches :: "string list \<Rightarrow> LLMModel \<Rightarrow> bool" where
  "providerMatches providers m =
     list_ex (\<lambda>p. toLowerCase (prov_id (provider m)) = toLowerCase p
                 \<or> toLowerCase (prov_name (provider m)) = toLowerCase p) providers"

text \<open>A missing description makes the last disjunct \<^verbatim>\<open>undefined\<close>, which is falsy.\<close>

definition searchMatches :: "string \<Rightarrow> LLMModel \<Rightarrow> bool" where
  "searchMatches s m =
     (includesStr (toLowerCase (model_id m)) s
      \<or> includesStr (toLowerCase (model_name m)) s
      \<or> includesStr (toLowerCase (prov_name (provider m))) s
      \<or> (case model_description m of None \<Rightarrow> False | Some d \<Rightarrow> includesStr (toLowerCase d) s))"

text \<open>
  The comparator of the sort. \<^verbatim>\<open>localeCompare\<close> depends on the locale of the engine and
  is a parameter. A comparator result \<^verbatim>\<open>NaN\<close> counts as zero.
\<close>

definition compareModels ::
  "(string \<Rightarrow> string \<Rightarrow> int) \<Rightarrow> SortKey \<Rightarrow> int \<Rightarrow> LLMModel \<Rightarrow> LLMModel \<Rightarrow> int" where
  "compareModels localeCompare key order a b =
     (case key of
        ByContext \<Rightarrow> (contextLength a - contextLength b) * order
      | ByPrice \<Rightarrow>
          sgn_jsnum (times_jsnum (minus_jsnum (promptPerMillion (pricing a))
                                              (promptPerMillion (pricing b)))
                                 (Fin (real_of_int order)))
      | ByName \<Rightarrow> localeCompare (model_name a) (model_name b) * order
      | ByProvider \<Rightarrow>
          localeCompare (prov_name (provider a)) (prov_name (provider b)) * order)"

text \<open>\<^verbatim>\<open>xs.slice(0, n)\<close>: a negative \<open>n\<close> counts from the end.\<close>

definition slice0 :: "int \<Rightarrow> LLMModel list \<Rightarrow> LLMModel list" where
  "slice0 n xs = (if n < 0 then take (nat (int (length xs) + n)) xs else take (nat n) xs)"

text \<open>
  The guarded steps of \<^verbatim>\<open>queryModels\<close>, in the order of the source. A string guard is
  false for the empty string, the guard on \<^verbatim>\<open>limit\<close> is false for zero, and an array is
  truthy even when it is empty.
\<close>

definition providerStage :: "ModelQueryOptions \<Rightarrow> LLMModel list \<Rightarrow> LLMModel list option" where
  "providerStage options results =
     (case opt_provider options of
        None \<Rightarrow> None
      | Some (One p) \<Rightarrow> if p = [] then None else Some (filter (providerMatches [p]) results)
      | Some (Many ps) \<Rightarrow> Some (filter (providerMatches ps) results))"

definition minContextStage :: "ModelQueryOptions \<Rightarrow> LLMModel list \<Rightarrow> LLMModel list option" where
  "minContextStage options results =
     (case opt_minContext options of
        None \<Rightarrow> None
      | Some lo \<Rightarrow> Some (filter (\<lambda>m. contextLength m \<ge> lo) results))"

definition maxContextStage :: "ModelQueryOptions \<Rightarrow> LLMModel list \<Rightarrow> LLMModel list option" where
  "maxContextStage options results =
     (case opt_maxContext options of
        None \<Rightarrow> None
      | Some hi \<Rightarrow> Some (filter (\<lambda>m. contextLength m \<le> hi) results))"

definition tierStage :: "ModelQueryOptions \<Rightarrow> LLMModel list \<Rightarrow> LLMModel list option" where
  "tierStage options results =
     (case opt_tier options of
        None \<Rightarrow> None
      | Some tiers \<Rightarrow> Some (filter (\<lambda>m. sizeTier m \<in> set (asList tiers)) results))"

definition isFreeStage :: "ModelQueryOptions \<Rightarrow> LLMModel list \<Rightarrow> LLMModel list option" where
  "isFreeStage options results =
     (case opt_isFree options of
        None \<Rightarrow> None
      | Some b \<Rightarrow> Some (filter (\<lambda>m. isFree (pricing m) = b) results))"

definition supportsImagesStage :: "ModelQueryOptions \<Rightarrow> LLMModel list \<Rightarrow> LLMModel list option" where
  "supportsImagesStage options results =
     (case opt_supportsImages options of
        None \<Rightarrow> None
      | Some b \<Rightarrow> Some (filter (\<lambda>m. supportsImages (capabilities m) = b) results))"

definition searchStage :: "ModelQueryOptions \<Rightarrow> LLMModel list \<Rightarrow> LLMModel list option" where
  "searchStage options results =
     (case opt_search options of
        None \<Rightarrow> None
      | Some s \<Rightarrow> if s = [] then None
                  else Some (filter (searchMatches (toLowerCase s)) results))"

definition sortStage ::
  "(string \<Rightarrow> string \<Rightarrow> int) \<Rightarrow> ModelQueryOptions \<Rightarrow> LLMModel list \<Rightarrow> LLMModel list option" where
  "sortStage localeCompare options results =
     (case opt_sortBy options of
        None \<Rightarrow> None
      | Some key \<Rightarrow>
          (let order = (if opt_sortOrder options = Some Desc then - 1 else 1)
           in Some (sortBy (compareModels localeCompare key order) results)))"

definition limitStage :: "ModelQueryOptions \<Rightarrow> LLMModel list \<Rightarrow> LLMModel list option" where
  "limitStage options results =
     (case opt_limit options of
        None \<Rightarrow> None
      | Some n \<Rightarrow> if n = 0 then None else Some (slice0 n results))"

text \<open>
  \<^verbatim>\<open>queryModels(models, options)\<close>, on the heap \<open>h\<close> with \<open>ms\<close> the address of \<^verbatim>\<open>models\<close>:
  the new heap and the address of the array returned.
\<close>

definition queryModels ::
  "(string \<Rightarrow> string \<Rightarrow> int) \<Rightarrow> heap \<Rightarrow> nat \<Rightarrow> ModelQueryOptions \<Rightarrow> heap \<times> nat" where
  "queryModels localeCompare h ms options =
     (let st0 = alloc h (content h ms);
          st1 = replaceWith (providerStage options) st0;
          st2 = replaceWith (minContextStage options) st1;
          st3 = replaceWith (maxContextStage options) st2;
          st4 = replaceWith (tierStage options) st3;
          st5 = replaceWith (isFreeStage options) st4;
          st6 = replaceWith (supportsImagesStage options) st5;
          st7 = replaceWith (searchStage options) st6;
          st8 = sortInPlace (sortStage localeCompare options) st7;
          st9 = replaceWith (limitStage options) st8
      in st9)"

section \<open>Notions of the specification\<close>

text \<open>
  The metadata and the three indices of a registry agree with its list of models: the
  version and the 24 hour expiry, the two counts, the index by identifier (the last model of
  the list wins among equal identifiers), and the indices by provider and by size tier,
  which hold the models of each key in the order of the list, with all five tier buckets
  present.
\<close>

definition indexedRegistry :: "ModelRegistry \<Rightarrow> bool" where
  "indexedRegistry reg \<longleftrightarrow>
     version (metadata reg) = REGISTRY_VERSION
     \<and> expiresAt (metadata reg) = fetchedAt (metadata reg) + CACHE_DURATION_MS
     \<and> modelCount (metadata reg) = length (models reg)
     \<and> providerCount (metadata reg) = card (set (map (\<lambda>m. prov_id (provider m)) (models reg)))
     \<and> byId reg = map_of (rev (map (\<lambda>m. (model_id m, m)) (models reg)))
     \<and> byProvider reg =
         (\<lambda>p. let bucket = filter (\<lambda>m. prov_id (provider m) = p) (models reg)
              in if bucket = [] then None else Some bucket)
     \<and> byTier reg = (\<lambda>t. filter (\<lambda>m. sizeTier m = t) (models reg))"

text \<open>
  A registry is well formed when it is what the data model of the specification describes:
  its metadata and indices agree with its list of models, the list is in descending order
  of context length, and the size tier of every model is the bin of its context length.
\<close>

definition descendingContext :: "LLMModel list \<Rightarrow> bool" where
  "descendingContext ms = sorted_wrt (\<lambda>a b. contextLength a \<ge> contextLength b) ms"

definition tierOfContext :: "LLMModel \<Rightarrow> bool" where
  "tierOfContext m \<longleftrightarrow> sizeTier m = getSizeTier (contextLength m)"

definition wellFormedRegistry :: "ModelRegistry \<Rightarrow> bool" where
  "wellFormedRegistry reg \<longleftrightarrow>
     indexedRegistry reg
     \<and> descendingContext (models reg)
     \<and> list_all tierOfContext (models reg)"

text \<open>The bucket found at a key of the provider index, empty while there is none.\<close>

definition bucketOf :: "'a list option \<Rightarrow> 'a list" where
  "bucketOf b = (case b of None \<Rightarrow> [] | Some xs \<Rightarrow> xs)"

text \<open>
  The five passes of the lookup as the specification words them, numbered from 0, for a
  query \<open>q\<close> that is already lowercased and trimmed: equal identifier; equal slug; identifier
  ending in \<^verbatim>\<open>/\<close> and the query; name containing the query; and, with hyphens, dots and
  white space removed on both sides, identifier, slug or name containing the query.
\<close>

definition resolutionPass :: "nat \<Rightarrow> string \<Rightarrow> LLMModel \<Rightarrow> bool" where
  "resolutionPass k q m =
     (if k = 0 then toLowerCase (model_id m) = q
      else if k = 1 then toLowerCase (slug m) = q
      else if k = 2 then suffix (''/'' @ q) (toLowerCase (model_id m))
      else if k = 3 then sublist q (toLowerCase (model_name m))
      else sublist (stripFuzzy q) (stripFuzzy (toLowerCase (model_id m)))
           \<or> sublist (stripFuzzy q) (stripFuzzy (toLowerCase (slug m)))
           \<or> sublist (stripFuzzy q) (stripFuzzy (toLowerCase (model_name m))))"

text \<open>The predicates of \<open>findModel\<close> as a list, and the first match over such a list.\<close>

definition lookupPasses :: "string \<Rightarrow> (LLMModel \<Rightarrow> bool) list" where
  "lookupPasses normalized =
     [exactIdMatch normalized, exactSlugMatch normalized, partialIdMatch normalized,
      nameContainsMatch normalized, fuzzyMatch normalized]"

fun firstMatch :: "('a \<Rightarrow> bool) list \<Rightarrow> 'a list \<Rightarrow> 'a option" where
  "firstMatch [] xs = None"
| "firstMatch (p # ps) xs = (case find p xs of Some x \<Rightarrow> Some x | None \<Rightarrow> firstMatch ps xs)"

text \<open>
  The filters of a query as one predicate on a model, and a guarded stage applied to a
  list.
\<close>

definition passesFilters :: "ModelQueryOptions \<Rightarrow> LLMModel \<Rightarrow> bool" where
  "passesFilters options m \<longleftrightarrow>
     (case opt_provider options of
        None \<Rightarrow> True
      | Some (One p) \<Rightarrow> p = [] \<or> providerMatches [p] m
      | Some (Many ps) \<Rightarrow> providerMatches ps m)
     \<and> (case opt_minContext options of None \<Rightarrow> True | Some lo \<Rightarrow> contextLength m \<ge> lo)
     \<and> (case opt_maxContext options of None \<Rightarrow> True | Some hi \<Rightarrow> contextLength m \<le> hi)
     \<and> (case opt_tier options of None \<Rightarrow> True | Some tiers \<Rightarrow> sizeTier m \<in> set (asList tiers))
     \<and> (case opt_isFree options of None \<Rightarrow> True | Some b \<Rightarrow> isFree (pricing m) = b)
     \<and> (case opt_supportsImages options of
          None \<Rightarrow> True | Some b \<Rightarrow> supportsImages (capabilities m) = b)
     \<and> (case opt_search options of
          None \<Rightarrow> True | Some s \<Rightarrow> s = [] \<or> searchMatches (toLowerCase s) m)"

definition applyStage :: "('a list \<Rightarrow> 'a list option) \<Rightarrow> 'a list \<Rightarrow> 'a list" where
  "applyStage f xs = (case f xs of None \<Rightarrow> xs | Some ys \<Rightarrow> ys)"

text \<open>
  An array variable is fresh for a heap \<open>h\<close> when it is allocated beyond \<open>h\<close> and the arrays
  of \<open>h\<close> are all as they were.
\<close>

definition fresh :: "heap \<Rightarrow> heap \<times> nat \<Rightarrow> bool" where
  "fresh h st \<longleftrightarrow>
     length h \<le> snd st \<and> snd st < length (fst st) \<and> take (length h) (fst st) = h"

section \<open>Sample inputs\<close>

text \<open>The record of the end-to-end example: Claude 3.5 Sonnet as the catalogue lists it.\<close>

definition sampleRaw :: OpenRouterModel where
  "sampleRaw =
     \<lparr>raw_id = ''anthropic/claude-3.5-sonnet'',
      raw_canonical_slug = None,
      raw_name = ''Anthropic: Claude 3.5 Sonnet'',
      raw_description = None,
      raw_created = Some 1718841600,
      raw_context_length = 200000,
      raw_max_completion_tokens = None,
      raw_hugging_face_id = None,
      raw_architecture = None,
      raw_pricing =
        \<lparr>price_prompt = ''0.000003'', price_completion = ''0.000015'',
         price_request = None, price_image = None, price_web_search = None,
         price_internal_reasoning = None, price_input_cache_read = None,
         price_input_cache_write = None\<rparr>,
      raw_top_provider = None,
      raw_per_request_limits = None,
      raw_supported_parameters = None,
      raw_default_parameters = None\<rparr>"



text \<open>
  Three records in upstream order: two with a context length of 128000 around one with
  200000.
\<close>

definition threeRaws :: "OpenRouterModel list" where
  "threeRaws =
     [sampleRaw\<lparr>raw_id := ''openai/gpt-4o'', raw_context_length := 128000\<rparr>,
      sampleRaw,
      sampleRaw\<lparr>raw_id := ''deepseek/deepseek-chat'', raw_context_length := 128000\<rparr>]"

text \<open>Two records that share an identifier and differ in their names.\<close>

definition duplicateRaws :: "OpenRouterModel list" where
  "duplicateRaws = [sampleRaw, sampleRaw\<lparr>raw_name := ''Claude 3.5 Sonnet (duplicate)''\<rparr>]"

text \<open>Two environments: the API is unreachable; in the second the snapshot is missing too.\<close>

definition snapshotEnv :: Environment where
  "snapshotEnv =
     \<lparr>env_api = FetchRejected, env_apiClock = (\<lambda>i. 0), env_apiNow = 0,
      env_snapshot = Imported (DataArray threeRaws), env_snapshotClock = (\<lambda>i. 0),
      env_snapshotNow = 0, env_loaded = (\<lambda>i. 0), env_fallbackNow = 0\<rparr>"

definition offlineEnv :: Environment where
  "offlineEnv = snapshotEnv\<lparr>env_snapshot := ImportRejected\<rparr>"

text \<open>
  The hardcoded GPT-4o model, and a sibling whose identifier, slug and name extend its
  own.
\<close>

definition gpt4oModel :: LLMModel where
  "gpt4oModel =
     fallbackModel ''openai/gpt-4o'' ''gpt-4o'' ''GPT-4o'' ''openai'' 128000 16384 Medium
       (createPricing 2.5 10)
       (createCapabilities \<lparr>o_supportsImages = Some True, o_supportsTools = Some True,
          o_supportsReasoning = None, o_isModerated = Some True, o_modality = None\<rparr>)
       [''temperature'', ''top_p'', ''stop'', ''max_tokens'', ''tools'', ''tool_choice'',
        ''response_format'']
       DEFAULT_DEFAULTS 0"

definition gpt4oMiniModel :: LLMModel where
  "gpt4oMiniModel =
     gpt4oModel\<lparr>model_id := ''openai/gpt-4o-mini'', slug := ''gpt-4o-mini'',
                 model_name := ''GPT-4o mini''\<rparr>"

text \<open>
  Query options: none at all; and a query for the models with at least 200000 tokens of
  context, largest first, capped at three.
\<close>

definition noOptions :: ModelQueryOptions where
  "noOptions =
     \<lparr>opt_provider = None, opt_minContext = None, opt_maxContext = None, opt_tier = None,
      opt_isFree = None, opt_supportsImages = None, opt_supportsTools = None,
      opt_supportsReasoning = None, opt_supportsStructuredOutput = None,
      opt_inputModality = None, opt_search = None, opt_sortBy = None, opt_sortOrder = None,
      opt_limit = None\<rparr>"

definition sampleOptions :: ModelQueryOptions where
  "sampleOptions =
     noOptions\<lparr>opt_minContext := Some 200000, opt_sortBy := Some ByContext,
                opt_sortOrder := Some Desc, opt_limit := Some 3\<rparr>"

text \<open>A heap that holds the hardcoded models as its only array.\<close>

definition sampleHeap :: heap where
  "sampleHeap = [FALLBACK_MODELS (\<lambda>i. 0)]"

section \<open>Properties of the numbers\<close>

subsection \<open>The rounding\<close>

text \<open>
  The bisection finds the binade of every value in the normal range, and the value chosen
  in it is within half a unit in the last place of the exact one.
\<close>

lemma pow2_pos: "0 < pow2 e"
  by (simp add: pow2_def)

lemma pow2_Suc: "pow2 (e + 1) = 2 * pow2 e"
proof (cases "0 \<le> e")
  case True
  then show ?thesis by (simp add: pow2_def nat_add_distrib)
next
  case False
  then have "nat (- e) = Suc (nat (- e - 1))" by simp
  then have "(2::real) ^ nat (- e) = 2 * 2 ^ nat (- e - 1)" by simp
  with False show ?thesis by (auto simp: pow2_def)
qed

lemma binadeIn_bounds:
  "lo \<le> hi \<Longrightarrow> hi - lo < 2 ^ n \<Longrightarrow> pow2 lo \<le> a \<Longrightarrow> a < pow2 (hi + 1) \<Longrightarrow>
   lo \<le> binadeIn n lo hi a \<and> binadeIn n lo hi a \<le> hi
   \<and> pow2 (binadeIn n lo hi a) \<le> a \<and> a < pow2 (binadeIn n lo hi a + 1)"
proof (induction n arbitrary: lo hi)
  case 0
  then have "lo = hi" by simp
  with 0 show ?case by simp
next
  case (Suc n)
  let ?mid = "(lo + hi + 1) div 2"
  show ?case
  proof (cases "lo = hi")
    case True
    with Suc.prems show ?thesis by simp
  next
    case False
    with Suc.prems have mid: "lo < ?mid" "?mid \<le> hi" "hi - ?mid < 2 ^ n" "?mid - 1 - lo < 2 ^ n"
      by auto
    show ?thesis
    proof (cases "pow2 ?mid \<le> a")
      case True
      from Suc.IH[OF mid(2) mid(3) True Suc.prems(4)] mid False True
      show ?thesis by auto
    next
      case no: False
      have "lo \<le> ?mid - 1" using mid by simp
      moreover have "a < pow2 (?mid - 1 + 1)" using no by simp
      ultimately show ?thesis
        using Suc.IH[of lo "?mid - 1"] mid Suc.prems(3) False no by auto
    qed
  qed
qed

lemma binade_bounds:
  assumes "pow2 (- 1022) \<le> a" and "a < pow2 1024"
  shows "- 1022 \<le> binade a" and "binade a \<le> 1023"
    and "pow2 (binade a) \<le> a" and "a < pow2 (binade a + 1)"
  using binadeIn_bounds[of "- 1022" 1023 11 a] assms by (simp_all add: binade_def)

lemma roundHalfEven_nearest: "\<bar>of_int (roundHalfEven q) - q\<bar> \<le> 1 / 2"
  unfolding roundHalfEven_def tieToEven_def by (auto simp: abs_if) linarith+

lemma quantize_nearest:
  assumes "0 < ulp"
  shows "\<bar>quantize a ulp - a\<bar> \<le> ulp / 2"
proof -
  let ?n = "real_of_int (roundHalfEven (a / ulp))"
  have "quantize a ulp - a = (?n - a / ulp) * ulp"
    using assms by (simp add: quantize_def left_diff_distrib)
  then have "\<bar>quantize a ulp - a\<bar> = \<bar>?n - a / ulp\<bar> * ulp"
    using assms by (simp add: abs_mult)
  also have "\<dots> \<le> 1 / 2 * ulp"
    using roundHalfEven_nearest[of "a / ulp"] assms by (intro mult_right_mono) simp_all
  finally show ?thesis by simp
qed

subsection \<open>Evaluation\<close>

lemma binadeIn_numeral:
  "binadeIn (numeral k) lo hi a =
     (if lo = hi then lo
      else if pow2 ((lo + hi + 1) div 2) \<le> a
        then binadeIn (pred_numeral k) ((lo + hi + 1) div 2) hi a
      else binadeIn (pred_numeral k) lo ((lo + hi + 1) div 2 - 1) a)"
  by (simp add: numeral_eq_Suc)

lemmas toBinary64_eval =
  toBinary64_def withSignOf_def quantize_def roundHalfEven_def tieToEven_def binade_def
  binadeIn_numeral pow2_def

lemmas parseFloat_eval =
  parseFloat_def trimStart_def isWhiteSpace_def startsWith_def unsignedDecimal_def
  isDigit_def digitsValue_def digitValue_def exponentPart_def scale10_def Let_def
  toBinary64_eval



lemma parseFloat_overflow: "parseFloat ''1e400'' = PosInf"
  by (simp add: parseFloat_eval)

text \<open>
  The price \<^verbatim>\<open>"0.00000219"\<close> is read as \<^verbatim>\<open>0.00000219\<close>, the binary64 value
  \<open>2585495649371131 / 2 ^ 70\<close>, and its product with 1000000 is \<^verbatim>\<open>2.1900000000000004\<close>,
  the binary64 value \<open>2465720795985347 / 2 ^ 50\<close>, not 2.19. A product beyond the greatest
  finite value is an infinity.
\<close>

lemma parseFloat_rounds: "parseFloat ''0.00000219'' = Fin (2585495649371131 / 2 ^ 70)"
  by (simp add: parseFloat_eval)

lemma times_jsnum_rounds:
  "times_jsnum (parseFloat ''0.00000219'') (Fin 1000000) = Fin (2465720795985347 / 2 ^ 50)"
  by (simp add: parseFloat_rounds) (simp add: toBinary64_eval)

lemma times_jsnum_overflow: "times_jsnum (parseFloat ''1e303'') (Fin 1000000) = PosInf"
  by (simp add: parseFloat_eval)

section \<open>Properties of the parser\<close>

subsection \<open>Helper lemmas\<close>

lemmas transformModel_eval =
  transformModel_def createdAtOf_def toISOString_def maxTimeValue_def

lemma transformModel_fields:
  assumes "transformModel now raw = Inr m"
  shows "model_id m = raw_id raw"
    and "slug m = parseModelSlug (raw_id raw)"
    and "provider m = getProviderInfo (parseProviderId (raw_id raw))"
    and "contextLength m = raw_context_length raw"
    and "maxCompletionTokens m = maxCompletionTokensOf raw"
    and "sizeTier m = getSizeTier (raw_context_length raw)"
    and "pricing m = parsePricing (raw_pricing raw)"
  using assms by (auto simp: transformModel_def Let_def split: sum.splits)

text \<open>
  \<open>transformModel\<close> returns a model unless the creation time is outside the range of
  \<^verbatim>\<open>Date\<close>.
\<close>

lemma transformModel_returns:
  "(\<exists>m. transformModel now raw = Inr m) \<longleftrightarrow>
   (case raw_created raw of None \<Rightarrow> True | Some c \<Rightarrow> \<bar>c * 1000\<bar> \<le> maxTimeValue)"
  by (auto simp: transformModel_eval Let_def split: sum.splits option.splits)

lemma split_not_Nil: "split sep s \<noteq> []"
  by (induction s) (auto split: list.splits)

lemma hd_split: "hd (split sep s) = takeWhile (\<lambda>c. c \<noteq> sep) s"
  by (induction s) (auto split: list.splits simp: split_not_Nil)

lemma join_split: "join [sep] (split sep s) = s"
proof (induction s)
  case Nil
  then show ?case by simp
next
  case (Cons c cs)
  obtain p ps where sp: "split sep cs = p # ps"
    using split_not_Nil[of sep cs] by (cases "split sep cs") auto
  show ?case
  proof (cases "c = sep")
    case True
    with Cons sp show ?thesis by simp
  next
    case False
    with Cons sp show ?thesis by (cases ps) auto
  qed
qed

lemma join_rest_split:
  "join [sep] (drop 1 (split sep s)) = drop 1 (dropWhile (\<lambda>c. c \<noteq> sep) s)"
proof (induction s)
  case Nil
  then show ?case by simp
next
  case (Cons c cs)
  obtain p ps where sp: "split sep cs = p # ps"
    using split_not_Nil[of sep cs] by (cases "split sep cs") auto
  show ?case
  proof (cases "c = sep")
    case True
    then show ?thesis using join_split[of sep cs] by simp
  next
    case False
    with Cons sp show ?thesis by simp
  qed
qed

lemma parseProviderId_eq:
  "parseProviderId modelId =
     (if takeWhile (\<lambda>c. c \<noteq> CHR ''/'') modelId = [] then ''unknown''
      else takeWhile (\<lambda>c. c \<noteq> CHR ''/'') modelId)"
  using hd_split[of "CHR ''/''" modelId] split_not_Nil[of "CHR ''/''" modelId]
  by (cases "split CHR ''/'' modelId") (auto simp: parseProviderId_def)

lemma parseModelSlug_eq:
  "parseModelSlug modelId =
     (if drop 1 (dropWhile (\<lambda>c. c \<noteq> CHR ''/'') modelId) = [] then modelId
      else drop 1 (dropWhile (\<lambda>c. c \<noteq> CHR ''/'') modelId))"
  using join_rest_split[of "CHR ''/''" modelId]
  by (simp add: parseModelSlug_def Let_def)

lemma prov_id_getProviderInfo: "prov_id (getProviderInfo p) = p"
  by (simp add: getProviderInfo_def withId_def Let_def split: option.splits)


subsection \<open>Size tiers at the bin boundaries\<close>

text \<open>
  C1, as the code has it. A context length of exactly 128000 is not below 128000, so the
  record is classified \<open>Large\<close>, the bin from 128000 (inclusive) to 500000 (exclusive); a
  context length of exactly 500000 is classified \<open>Massive\<close>. This holds for every raw
  record that \<open>transformModel\<close> normalises.
\<close>

theorem sizeTier_at_bin_boundaries:
  assumes "raw_context_length raw = 128000" and "transformModel now raw = Inr m"
      and "raw_context_length raw' = 500000" and "transformModel now' raw' = Inr m'"
  shows "sizeTier m = Large \<and> sizeTier m' = Massive"
  using transformModel_fields(6)[OF assms(2)] transformModel_fields(6)[OF assms(4)] assms(1,3)
  by (simp add: getSizeTier_def)

theorem sizeTier_at_bin_boundaries_witness:
  "(\<exists>m. transformModel 0 (sampleRaw\<lparr>raw_context_length := 128000\<rparr>) = Inr m \<and> sizeTier m = Large)
   \<and> (\<exists>m'. transformModel 0 (sampleRaw\<lparr>raw_context_length := 500000\<rparr>) = Inr m'
          \<and> sizeTier m' = Massive)"
proof -
  obtain m where m: "transformModel 0 (sampleRaw\<lparr>raw_context_length := 128000\<rparr>) = Inr m"
    using transformModel_returns[of 0 "sampleRaw\<lparr>raw_context_length := 128000\<rparr>"]
    by (auto simp: sampleRaw_def maxTimeValue_def)
  obtain m' where m': "transformModel 0 (sampleRaw\<lparr>raw_context_length := 500000\<rparr>) = Inr m'"
    using transformModel_returns[of 0 "sampleRaw\<lparr>raw_context_length := 500000\<rparr>"]
    by (auto simp: sampleRaw_def maxTimeValue_def)
  have "sizeTier m = Large \<and> sizeTier m' = Massive"
    using sizeTier_at_bin_boundaries[OF _ m _ m'] by simp
  with m m' show ?thesis by blast
qed

text \<open>
  The claim as the specification words it fails: the sample record with a context
  length of 128000 is normalised to the tier \<open>Large\<close>, not \<open>Medium\<close>.
\<close>

theorem sizeTier_128000_counterexample:
  "raw_context_length (sampleRaw\<lparr>raw_context_length := 128000\<rparr>) = 128000
   \<and> map_sum id sizeTier (transformModel 0 (sampleRaw\<lparr>raw_context_length := 128000\<rparr>)) = Inr Large
   \<and> Large \<noteq> Medium"
  by (simp add: transformModel_eval sampleRaw_def getSizeTier_def)

subsection \<open>Provider identifier and slug\<close>

text \<open>
  C3, as the code has it. The provider identifier of the normalised model is the part of
  the raw identifier before its first \<^verbatim>\<open>/\<close> (the whole identifier when it has none), and
  \<^verbatim>\<open>unknown\<close> only when that part is empty. The slug is what follows the first \<^verbatim>\<open>/\<close>,
  and the whole identifier when there is no \<^verbatim>\<open>/\<close> or nothing follows it.
\<close>

theorem provider_and_slug_split:
  assumes "transformModel now raw = Inr m"
  shows "prov_id (provider m) =
           (let before = takeWhile (\<lambda>c. c \<noteq> CHR ''/'') (raw_id raw)
            in if before = [] then ''unknown'' else before)
       \<and> slug m =
           (let after = drop 1 (dropWhile (\<lambda>c. c \<noteq> CHR ''/'') (raw_id raw))
            in if after = [] then raw_id raw else after)"
proof -
  have "prov_id (provider m) = parseProviderId (raw_id raw)"
    using transformModel_fields(3)[OF assms] by (simp add: prov_id_getProviderInfo)
  moreover have "slug m = parseModelSlug (raw_id raw)"
    using transformModel_fields(2)[OF assms] .
  ultimately show ?thesis
    by (simp only: parseProviderId_eq parseModelSlug_eq Let_def)
qed

theorem provider_and_slug_split_witness:
  "\<exists>m. transformModel 0 sampleRaw = Inr m
       \<and> prov_id (provider m) = ''anthropic'' \<and> slug m = ''claude-3.5-sonnet''"
proof -
  obtain m where m: "transformModel 0 sampleRaw = Inr m"
    using transformModel_returns[of 0 sampleRaw] by (auto simp: sampleRaw_def maxTimeValue_def)
  have "raw_id sampleRaw = ''anthropic/claude-3.5-sonnet''"
    by (simp add: sampleRaw_def)
  then have "prov_id (provider m) = ''anthropic'' \<and> slug m = ''claude-3.5-sonnet''"
    using provider_and_slug_split[OF m] by simp
  with m show ?thesis by blast
qed

text \<open>
  The claim as the specification words it fails for an identifier without \<^verbatim>\<open>/\<close>: the
  provider identifier of \<^verbatim>\<open>gpt-4o\<close> is \<^verbatim>\<open>gpt-4o\<close> itself, not \<^verbatim>\<open>unknown\<close>.
\<close>

theorem provider_without_slash_counterexample:
  "CHR ''/'' \<notin> set ''gpt-4o''
   \<and> map_sum id (\<lambda>m. prov_id (provider m)) (transformModel 0 (sampleRaw\<lparr>raw_id := ''gpt-4o''\<rparr>))
       = Inr ''gpt-4o''
   \<and> ''gpt-4o'' \<noteq> ''unknown''"
  by (simp add: transformModel_eval sampleRaw_def parseProviderId_def getProviderInfo_def
      withId_def KNOWN_PROVIDERS_def Let_def)

subsection \<open>Pricing\<close>



subsection \<open>Maximal completion tokens\<close>

text \<open>
  C5, as the code has it. The normalised \<open>maxCompletionTokens\<close> is the record's own
  \<^verbatim>\<open>max_completion_tokens\<close> when that is present and not zero; otherwise that of
  \<^verbatim>\<open>top_provider\<close> when present and not zero; otherwise the minimum of the context length
  and 4096.
\<close>

theorem maxCompletionTokens_priority:
  assumes "transformModel now raw = Inr m"
  shows "maxCompletionTokens m =
           (let explicit = raw_max_completion_tokens raw;
                override = (case raw_top_provider raw of
                              None \<Rightarrow> None | Some t \<Rightarrow> top_max_completion_tokens t)
            in if explicit \<noteq> None \<and> explicit \<noteq> Some 0 then the explicit
               else if override \<noteq> None \<and> override \<noteq> Some 0 then the override
               else min (raw_context_length raw) 4096)"
  using transformModel_fields(5)[OF assms]
  by (auto simp: maxCompletionTokensOf_def Let_def split: option.splits)

theorem maxCompletionTokens_priority_witness:
  "\<exists>m. transformModel 0 (sampleRaw\<lparr>raw_max_completion_tokens := Some 8192\<rparr>) = Inr m
       \<and> maxCompletionTokens m = 8192"
proof -
  obtain m where m: "transformModel 0 (sampleRaw\<lparr>raw_max_completion_tokens := Some 8192\<rparr>) = Inr m"
    using transformModel_returns[of 0 "sampleRaw\<lparr>raw_max_completion_tokens := Some 8192\<rparr>"]
    by (auto simp: sampleRaw_def maxTimeValue_def)
  have "maxCompletionTokens m = 8192"
    using maxCompletionTokens_priority[OF m] by (simp add: sampleRaw_def)
  with m show ?thesis by blast
qed

text \<open>
  The claim as the specification words it fails for a field that is present with the
  value zero: the chain of \<^verbatim>\<open>||\<close> passes over it, and the result is 4096.
\<close>

theorem maxCompletionTokens_zero_counterexample:
  "raw_max_completion_tokens (sampleRaw\<lparr>raw_max_completion_tokens := Some 0\<rparr>) = Some 0
   \<and> map_sum id maxCompletionTokens
        (transformModel 0 (sampleRaw\<lparr>raw_max_completion_tokens := Some 0\<rparr>)) = Inr 4096"
  by (simp add: transformModel_eval sampleRaw_def maxCompletionTokensOf_def)

section \<open>Properties of the list transformation and the registry\<close>

subsection \<open>Helper lemmas on the sort\<close>

lemma set_insertBy: "set (insertBy cmp x ys) = insert x (set ys)"
  by (induction ys) auto

lemma set_sortBy: "set (sortBy cmp xs) = set xs"
  by (induction xs) (auto simp: sortBy_def set_insertBy)

lemma length_insertBy: "length (insertBy cmp x ys) = Suc (length ys)"
  by (induction ys) auto

lemma length_sortBy: "length (sortBy cmp xs) = length xs"
  by (induction xs) (auto simp: sortBy_def length_insertBy)

lemma distinct_map_insertBy:
  "distinct (map g (insertBy cmp x ys)) \<longleftrightarrow> g x \<notin> g ` set ys \<and> distinct (map g ys)"
  by (induction ys) (auto simp: set_insertBy)

lemma distinct_map_sortBy: "distinct (map g (sortBy cmp xs)) \<longleftrightarrow> distinct (map g xs)"
  by (induction xs) (auto simp: sortBy_def distinct_map_insertBy set_sortBy[unfolded sortBy_def])

text \<open>Sorting by a descending numeric key is the library's insertion sort on the negated key.\<close>

lemma insertBy_descending:
  "insertBy (\<lambda>a b. f b - f a) x ys = insort_key (\<lambda>m. - f m) x ys"
  for f :: "'a \<Rightarrow> int"
  by (induction ys) auto

lemma sortBy_descending: "sortBy (\<lambda>a b. f b - f a) xs = sort_key (\<lambda>m. - f m) xs"
  for f :: "'a \<Rightarrow> int"
  by (induction xs) (auto simp: sortBy_def insertBy_descending)

lemma sortBy_descending_sorted:
  "sorted_wrt (\<lambda>a b. f a \<ge> f b) (sortBy (\<lambda>a b. f b - f a) xs)"
  for f :: "'a \<Rightarrow> int"
proof -
  have "sorted (map (\<lambda>m. - f m) (sort_key (\<lambda>m. - f m) xs))"
    by (rule sorted_sort_key)
  then show ?thesis
    by (simp add: sortBy_descending sorted_map)
qed

lemma sortBy_descending_stable:
  "filter (\<lambda>m. f m = k) (sortBy (\<lambda>a b. f b - f a) xs) = filter (\<lambda>m. f m = k) xs"
  for f :: "'a \<Rightarrow> int"
  using sort_key_stable[of "\<lambda>m. - f m" "- k" xs]
  by (simp add: sortBy_descending)

lemma mapTransform_all2:
  "mapTransform clock i raws = Inr us \<Longrightarrow>
   list_all2 (\<lambda>raw m. \<exists>now. transformModel now raw = Inr m) raws us"
proof (induction raws arbitrary: i us)
  case Nil
  then show ?case by simp
next
  case (Cons raw raws)
  then show ?case
    by (auto split: sum.splits)
qed

lemma all2_transform_ids:
  "list_all2 (\<lambda>raw m. \<exists>now. transformModel now raw = Inr m) raws us \<Longrightarrow>
   map model_id us = map raw_id raws \<and> map contextLength us = map raw_context_length raws"
  by (induction raws us rule: list_all2_induct) (auto dest: transformModel_fields(1,4))

lemma mapTransform_returns:
  "(\<exists>us. mapTransform clock i raws = Inr us) \<longleftrightarrow>
   (\<forall>raw \<in> set raws. \<exists>m. transformModel 0 raw = Inr m)"
proof (induction raws arbitrary: i)
  case Nil
  then show ?case by simp
next
  case (Cons raw raws)
  have r: "(\<exists>m. transformModel (clock i) raw = Inr m) \<longleftrightarrow> (\<exists>m. transformModel 0 raw = Inr m)"
    by (simp add: transformModel_returns)
  show ?case
    using Cons[of "Suc i"] r by (auto split: sum.splits) 
qed

lemma transformModels_returns:
  "(\<exists>ms. transformModels clock raws = Inr ms) \<longleftrightarrow>
   (\<forall>raw \<in> set raws. \<exists>m. transformModel 0 raw = Inr m)"
  using mapTransform_returns[of clock 0 raws]
  by (auto simp: transformModels_def split: sum.splits)

subsection \<open>Order of the transformed list\<close>

text \<open>
  C8. For every list of raw records that \<open>transformModels\<close> normalises, the result is
  sorted by descending \<open>contextLength\<close>, and the sort is stable: with \<open>us\<close> the normalised
  records in input order, the models of any one context length appear in the result in the
  same order as in \<open>us\<close>.
\<close>

theorem transformModels_sorted_stable:
  assumes "transformModels clock raws = Inr ms"
  shows "sorted_wrt (\<lambda>a b. contextLength a \<ge> contextLength b) ms
       \<and> (\<exists>us. list_all2 (\<lambda>raw m. \<exists>now. transformModel now raw = Inr m) raws us
              \<and> (\<forall>k. filter (\<lambda>m. contextLength m = k) ms
                      = filter (\<lambda>m. contextLength m = k) us))"
proof -
  from assms obtain us where us: "mapTransform clock 0 raws = Inr us"
    and ms: "ms = sortBy (\<lambda>a b. contextLength b - contextLength a) us"
    by (auto simp: transformModels_def split: sum.splits)
  have "sorted_wrt (\<lambda>a b. contextLength a \<ge> contextLength b) ms"
    unfolding ms by (rule sortBy_descending_sorted)
  moreover have "\<forall>k. filter (\<lambda>m. contextLength m = k) ms = filter (\<lambda>m. contextLength m = k) us"
    unfolding ms by (simp add: sortBy_descending_stable)
  ultimately show ?thesis
    using mapTransform_all2[OF us] by blast
qed

theorem transformModels_sorted_stable_witness:
  "\<exists>ms. transformModels (\<lambda>i. 0) threeRaws = Inr ms
        \<and> sorted_wrt (\<lambda>a b. contextLength a \<ge> contextLength b) ms
        \<and> map model_id ms =
            [''anthropic/claude-3.5-sonnet'', ''openai/gpt-4o'', ''deepseek/deepseek-chat'']"
proof -
  let ?r1 = "sampleRaw\<lparr>raw_id := ''openai/gpt-4o'', raw_context_length := 128000\<rparr>"
  let ?r3 = "sampleRaw\<lparr>raw_id := ''deepseek/deepseek-chat'', raw_context_length := 128000\<rparr>"
  obtain a where a: "transformModel 0 ?r1 = Inr a"
    using transformModel_returns[of 0 ?r1] by (auto simp: sampleRaw_def maxTimeValue_def)
  obtain b where b: "transformModel 0 sampleRaw = Inr b"
    using transformModel_returns[of 0 sampleRaw] by (auto simp: sampleRaw_def maxTimeValue_def)
  obtain c where c: "transformModel 0 ?r3 = Inr c"
    using transformModel_returns[of 0 ?r3] by (auto simp: sampleRaw_def maxTimeValue_def)
  have ctx: "contextLength a = 128000" "contextLength b = 200000" "contextLength c = 128000"
    using transformModel_fields(4)[OF a] transformModel_fields(4)[OF b]
      transformModel_fields(4)[OF c] by (simp_all add: sampleRaw_def)
  have ids: "model_id a = ''openai/gpt-4o''" "model_id b = ''anthropic/claude-3.5-sonnet''"
    "model_id c = ''deepseek/deepseek-chat''"
    using transformModel_fields(1)[OF a] transformModel_fields(1)[OF b]
      transformModel_fields(1)[OF c] by (simp_all add: sampleRaw_def)
  have ms: "transformModels (\<lambda>i. 0) threeRaws = Inr [b, a, c]"
    by (simp add: transformModels_def threeRaws_def a b c sortBy_def ctx)
  have "sorted_wrt (\<lambda>a b. contextLength a \<ge> contextLength b) [b, a, c]"
    using transformModels_sorted_stable[OF ms] by (rule conjunct1)
  with ms ids show ?thesis by simp
qed

subsection \<open>Helper lemmas on the registry\<close>

lemma indexModel_Inr:
  assumes "indexModel ix m = Inr ix'"
  shows "prov_id (provider m) \<notin> set inheritedKeys"
    and "ix_byId ix' = (ix_byId ix)(model_id m \<mapsto> m)"
    and "ix_byTier ix' = (ix_byTier ix)(sizeTier m := ix_byTier ix (sizeTier m) @ [m])"
    and "ix_byProvider ix' =
           (ix_byProvider ix)(prov_id (provider m) \<mapsto>
              bucketOf (ix_byProvider ix (prov_id (provider m))) @ [m])"
  using assms by (auto simp: indexModel_def Let_def bucketOf_def split: if_splits)

lemma indexModel_returns:
  "(\<exists>ix'. indexModel ix m = Inr ix') \<longleftrightarrow> prov_id (provider m) \<notin> set inheritedKeys"
  by (auto simp: indexModel_def Let_def)

lemma indexModels_returns:
  "(\<exists>ix'. indexModels ix ms = Inr ix') \<longleftrightarrow>
   (\<forall>m \<in> set ms. prov_id (provider m) \<notin> set inheritedKeys)"
proof (induction ms arbitrary: ix)
  case Nil
  then show ?case by simp
next
  case (Cons m ms)
  show ?case
  proof (cases "indexModel ix m")
    case (Inl e)
    then show ?thesis using indexModel_returns[of ix m] by auto
  next
    case (Inr ix1)
    then show ?thesis using indexModel_returns[of ix m] Cons[of ix1] by auto
  qed
qed

lemma indexModels_byId:
  "indexModels ix ms = Inr ix' \<Longrightarrow>
   ix_byId ix' = ix_byId ix ++ map_of (rev (map (\<lambda>m. (model_id m, m)) ms))"
proof (induction ms arbitrary: ix)
  case Nil
  then show ?case by simp
next
  case (Cons m ms)
  from Cons.prems obtain ix1 where s: "indexModel ix m = Inr ix1" and r: "indexModels ix1 ms = Inr ix'"
    by (auto split: sum.splits)
  have "ix_byId ix' = ix_byId ix1 ++ map_of (rev (map (\<lambda>m. (model_id m, m)) ms))"
    using Cons.IH[OF r] .
  then show ?case
    unfolding indexModel_Inr(2)[OF s]
    by (auto simp: map_add_def fun_eq_iff split: option.splits)
qed

lemma indexModels_byTier:
  "indexModels ix ms = Inr ix' \<Longrightarrow>
   ix_byTier ix' t = ix_byTier ix t @ filter (\<lambda>m. sizeTier m = t) ms"
proof (induction ms arbitrary: ix)
  case Nil
  then show ?case by simp
next
  case (Cons m ms)
  from Cons.prems obtain ix1 where s: "indexModel ix m = Inr ix1" and r: "indexModels ix1 ms = Inr ix'"
    by (auto split: sum.splits)
  show ?case
    using Cons.IH[OF r] indexModel_Inr(3)[OF s] by simp
qed

lemma indexModels_byProvider:
  "indexModels ix ms = Inr ix' \<Longrightarrow>
   ix_byProvider ix' p =
     (if ix_byProvider ix p = None \<and> filter (\<lambda>m. prov_id (provider m) = p) ms = [] then None
      else Some (bucketOf (ix_byProvider ix p) @ filter (\<lambda>m. prov_id (provider m) = p) ms))"
proof (induction ms arbitrary: ix)
  case Nil
  then show ?case by (auto simp: bucketOf_def)
next
  case (Cons m ms)
  from Cons.prems obtain ix1 where s: "indexModel ix m = Inr ix1" and r: "indexModels ix1 ms = Inr ix'"
    by (auto split: sum.splits)
  show ?case
    using Cons.IH[OF r] indexModel_Inr(4)[OF s] by (auto simp: bucketOf_def)
qed

lemma buildRegistry_returns:
  "(\<exists>reg. buildRegistry now ms src = Inr reg) \<longleftrightarrow>
   (\<forall>m \<in> set ms. prov_id (provider m) \<notin> set inheritedKeys)"
  using indexModels_returns[of emptyIndices ms]
  by (auto simp: buildRegistry_def Let_def split: sum.splits)

lemma buildRegistry_Inr:
  assumes "buildRegistry now ms src = Inr reg"
  shows "models reg = ms" and "source (metadata reg) = src" and "indexedRegistry reg"
proof -
  from assms obtain ix where ix: "indexModels emptyIndices ms = Inr ix"
    and reg: "reg = \<lparr>metadata = \<lparr>version = REGISTRY_VERSION, fetchedAt = now,
                  expiresAt = now + CACHE_DURATION_MS,
                  modelCount = length ms,
                  providerCount = length (remdups (map (\<lambda>m. prov_id (provider m)) ms)),
                  source = src\<rparr>, models = ms, byId = ix_byId ix,
                  byProvider = ix_byProvider ix, byTier = ix_byTier ix\<rparr>"
    by (auto simp: buildRegistry_def Let_def split: sum.splits)
  show "models reg = ms" and "source (metadata reg) = src"
    by (simp_all add: reg)
  have a: "ix_byId ix = map_of (rev (map (\<lambda>m. (model_id m, m)) ms))"
    using indexModels_byId[OF ix] by (simp add: emptyIndices_def)
  have b: "ix_byTier ix = (\<lambda>t. filter (\<lambda>m. sizeTier m = t) ms)"
    using indexModels_byTier[OF ix] by (auto simp: emptyIndices_def)
  have c: "ix_byProvider ix =
         (\<lambda>p. let bucket = filter (\<lambda>m. prov_id (provider m) = p) ms
              in if bucket = [] then None else Some bucket)"
    using indexModels_byProvider[OF ix] by (auto simp: emptyIndices_def bucketOf_def Let_def)
  show "indexedRegistry reg"
    unfolding indexedRegistry_def by (simp add: reg a b c length_remdups_card_conv)
qed

lemma map_of_rev_last:
  "map_of (rev (map (\<lambda>m. (f m, m)) ms)) k =
     (if filter (\<lambda>m. f m = k) ms = [] then None else Some (last (filter (\<lambda>m. f m = k) ms)))"
  by (induction ms rule: rev_induct) auto

lemma distinct_filter_single:
  "distinct (map f xs) \<Longrightarrow> x \<in> set xs \<Longrightarrow> filter (\<lambda>y. f y = f x) xs = [x]"
proof (induction xs)
  case Nil
  then show ?case by simp
next
  case (Cons y ys)
  then show ?case
    by (auto simp: filter_empty_conv image_iff)
qed

lemma transformModel_name: "transformModel now raw = Inr m \<Longrightarrow> model_name m = raw_name raw"
  by (auto simp: transformModel_def Let_def split: sum.splits)

lemma transformModels_ids:
  assumes "transformModels clock raws = Inr ms"
  shows "distinct (map model_id ms) \<longleftrightarrow> distinct (map raw_id raws)"
proof -
  from assms obtain us where us: "mapTransform clock 0 raws = Inr us"
    and ms: "ms = sortBy (\<lambda>a b. contextLength b - contextLength a) us"
    by (auto simp: transformModels_def split: sum.splits)
  have "map model_id us = map raw_id raws"
    using all2_transform_ids[OF mapTransform_all2[OF us]] by simp
  then show ?thesis
    by (simp add: ms distinct_map_sortBy)
qed

lemma threeRaws_transformed:
  "\<exists>a b c. transformModels (\<lambda>i. 0) threeRaws = Inr [b, a, c]
     \<and> prov_id (provider a) = ''openai'' \<and> prov_id (provider b) = ''anthropic''
     \<and> prov_id (provider c) = ''deepseek''"
proof -
  let ?r1 = "sampleRaw\<lparr>raw_id := ''openai/gpt-4o'', raw_context_length := 128000\<rparr>"
  let ?r3 = "sampleRaw\<lparr>raw_id := ''deepseek/deepseek-chat'', raw_context_length := 128000\<rparr>"
  obtain a where a: "transformModel 0 ?r1 = Inr a"
    using transformModel_returns[of 0 ?r1] by (auto simp: sampleRaw_def maxTimeValue_def)
  obtain b where b: "transformModel 0 sampleRaw = Inr b"
    using transformModel_returns[of 0 sampleRaw] by (auto simp: sampleRaw_def maxTimeValue_def)
  obtain c where c: "transformModel 0 ?r3 = Inr c"
    using transformModel_returns[of 0 ?r3] by (auto simp: sampleRaw_def maxTimeValue_def)
  have ctx: "contextLength a = 128000" "contextLength b = 200000" "contextLength c = 128000"
    using transformModel_fields(4)[OF a] transformModel_fields(4)[OF b]
      transformModel_fields(4)[OF c] by (simp_all add: sampleRaw_def)
  have ms: "transformModels (\<lambda>i. 0) threeRaws = Inr [b, a, c]"
    by (simp add: transformModels_def threeRaws_def a b c sortBy_def ctx)
  have "prov_id (provider a) = ''openai''" "prov_id (provider b) = ''anthropic''"
    "prov_id (provider c) = ''deepseek''"
    using transformModel_fields(3)[OF a] transformModel_fields(3)[OF b]
      transformModel_fields(3)[OF c]
    by (simp_all add: prov_id_getProviderInfo sampleRaw_def parseProviderId_def)
  with ms show ?thesis by blast
qed

subsection \<open>Round trip through the identifier index\<close>

text \<open>
  C6, as the code has it. For every list of raw records that is normalised and built into
  a registry, the index \<open>byId\<close> maps the identifier of every model of the registry to the
  last model of the list that carries this identifier; when the identifiers of the raw
  records are pairwise distinct, that is the model itself.
\<close>

theorem byId_round_trip:
  assumes "transformModels clock raws = Inr ms"
      and "buildRegistry now ms src = Inr reg"
  shows "(\<forall>m \<in> set (models reg).
            byId reg (model_id m) =
              Some (last (filter (\<lambda>x. model_id x = model_id m) (models reg))))
       \<and> (distinct (map raw_id raws) \<longrightarrow>
            (\<forall>m \<in> set (models reg). byId reg (model_id m) = Some m))"
proof -
  have wf: "indexedRegistry reg" and mr: "models reg = ms"
    using buildRegistry_Inr[OF assms(2)] by simp_all
  then have byId: "byId reg = map_of (rev (map (\<lambda>m. (model_id m, m)) ms))"
    by (simp add: indexedRegistry_def)
  have general: "byId reg (model_id m) = Some (last (filter (\<lambda>x. model_id x = model_id m) ms))"
    if "m \<in> set ms" for m
  proof -
    from that have "filter (\<lambda>x. model_id x = model_id m) ms \<noteq> []"
      by (auto simp: filter_empty_conv)
    then show ?thesis
      by (simp add: byId map_of_rev_last)
  qed
  have "byId reg (model_id m) = Some m" if "m \<in> set ms" and "distinct (map raw_id raws)" for m
  proof -
    have "distinct (map model_id ms)"
      using transformModels_ids[OF assms(1)] that(2) by simp
    then have "filter (\<lambda>x. model_id x = model_id m) ms = [m]"
      using that(1) by (rule distinct_filter_single)
    then show ?thesis
      using general[OF that(1)] by simp
  qed
  with general show ?thesis
    by (simp add: mr)
qed

theorem byId_round_trip_witness:
  "\<exists>ms reg. transformModels (\<lambda>i. 0) threeRaws = Inr ms \<and> buildRegistry 0 ms Api = Inr reg
     \<and> length (models reg) = 3
     \<and> list_all (\<lambda>m. byId reg (model_id m) = Some m) (models reg)"
proof -
  obtain a b c where ms: "transformModels (\<lambda>i. 0) threeRaws = Inr [b, a, c]"
    and p: "prov_id (provider a) = ''openai''" "prov_id (provider b) = ''anthropic''"
      "prov_id (provider c) = ''deepseek''"
    using threeRaws_transformed by blast
  obtain reg where reg: "buildRegistry 0 [b, a, c] Api = Inr reg"
    using buildRegistry_returns[of 0 "[b, a, c]" Api] p by (auto simp: inheritedKeys_def)
  have d: "distinct (map raw_id threeRaws)"
    by (simp add: threeRaws_def sampleRaw_def)
  have "\<forall>m \<in> set (models reg). byId reg (model_id m) = Some m"
    using byId_round_trip[OF ms reg] d by blast
  moreover have "models reg = [b, a, c]"
    using buildRegistry_Inr(1)[OF reg] .
  ultimately show ?thesis
    using ms reg by (auto simp: list_all_iff)
qed

text \<open>
  The claim as the specification words it, for every list of raw records, fails when two
  records share an identifier: the index holds the later one, and the earlier model is not
  mapped back to itself.
\<close>

theorem byId_duplicate_counterexample:
  "\<exists>ms reg. transformModels (\<lambda>i. 0) duplicateRaws = Inr ms \<and> buildRegistry 0 ms Api = Inr reg
     \<and> \<not> list_all (\<lambda>m. byId reg (model_id m) = Some m) (models reg)"
proof -
  let ?r2 = "sampleRaw\<lparr>raw_name := ''Claude 3.5 Sonnet (duplicate)''\<rparr>"
  obtain a where a: "transformModel 0 sampleRaw = Inr a"
    using transformModel_returns[of 0 sampleRaw] by (auto simp: sampleRaw_def maxTimeValue_def)
  obtain b where b: "transformModel 0 ?r2 = Inr b"
    using transformModel_returns[of 0 ?r2] by (auto simp: sampleRaw_def maxTimeValue_def)
  have ctx: "contextLength a = 200000" "contextLength b = 200000"
    using transformModel_fields(4)[OF a] transformModel_fields(4)[OF b]
    by (simp_all add: sampleRaw_def)
  have ids: "model_id a = ''anthropic/claude-3.5-sonnet''" "model_id b = ''anthropic/claude-3.5-sonnet''"
    using transformModel_fields(1)[OF a] transformModel_fields(1)[OF b]
    by (simp_all add: sampleRaw_def)
  have "model_name a \<noteq> model_name b"
    using transformModel_name[OF a] transformModel_name[OF b] by (simp add: sampleRaw_def)
  then have ne: "a \<noteq> b" by auto
  have ms: "transformModels (\<lambda>i. 0) duplicateRaws = Inr [a, b]"
    by (simp add: transformModels_def duplicateRaws_def a b sortBy_def ctx)
  have "prov_id (provider a) = ''anthropic''" "prov_id (provider b) = ''anthropic''"
    using transformModel_fields(3)[OF a] transformModel_fields(3)[OF b]
    by (simp_all add: prov_id_getProviderInfo sampleRaw_def parseProviderId_def)
  then obtain reg where reg: "buildRegistry 0 [a, b] Api = Inr reg"
    using buildRegistry_returns[of 0 "[a, b]" Api] by (auto simp: inheritedKeys_def)
  have "byId reg = map_of (rev (map (\<lambda>m. (model_id m, m)) [a, b]))"
    using buildRegistry_Inr[OF reg] by (simp add: indexedRegistry_def)
  then have "byId reg (model_id a) = Some b"
    by (simp add: ids)
  then have "\<not> list_all (\<lambda>m. byId reg (model_id m) = Some m) (models reg)"
    using ne buildRegistry_Inr(1)[OF reg] by auto
  with ms reg show ?thesis by blast
qed

section \<open>Properties of the fetcher\<close>

subsection \<open>Helper lemmas\<close>

lemma fallback_providers_ok:
  "\<forall>m \<in> set (FALLBACK_MODELS loaded). prov_id (provider m) \<notin> set inheritedKeys"
  by (simp add: FALLBACK_MODELS_def fallbackModel_def withId_def inheritedKeys_def)

lemma getFallbackRegistry_returns:
  "\<exists>reg. getFallbackRegistry loaded now = Inr reg"
  unfolding getFallbackRegistry_def
  using buildRegistry_returns[of now "FALLBACK_MODELS loaded" Fallback] fallback_providers_ok
  by blast

lemma length_FALLBACK_MODELS: "length (FALLBACK_MODELS loaded) = 14"
  by (simp add: FALLBACK_MODELS_def)

text \<open>
  The first two stages hand \<open>buildRegistry\<close> the list \<open>transformModels\<close> made: it is in
  descending order of context length, and every tier in it was computed by \<open>getSizeTier\<close>.
\<close>

lemma transformModels_descending:
  assumes "transformModels clock raws = Inr ms"
  shows "descendingContext ms"
proof -
  from assms obtain us where "ms = sortBy (\<lambda>a b. contextLength b - contextLength a) us"
    by (auto simp: transformModels_def split: sum.splits)
  then show ?thesis
    unfolding descendingContext_def by (simp add: sortBy_descending_sorted)
qed

lemma transformModels_tiers:
  assumes "transformModels clock raws = Inr ms"
  shows "list_all tierOfContext ms"
proof -
  from assms obtain us where us: "mapTransform clock 0 raws = Inr us"
    and ms: "ms = sortBy (\<lambda>a b. contextLength b - contextLength a) us"
    by (auto simp: transformModels_def split: sum.splits)
  have "tierOfContext m" if "m \<in> set us" for m
  proof -
    from that mapTransform_all2[OF us] obtain raw now where "transformModel now raw = Inr m"
      by (auto simp: list_all2_conv_all_nth in_set_conv_nth)
    then show ?thesis
      using transformModel_fields(4,6) by (simp add: tierOfContext_def)
  qed
  then show ?thesis
    by (simp add: ms list_all_iff set_sortBy)
qed

lemma loadFromSnapshot_Some:
  assumes "loadFromSnapshot snapshot clock now = Some reg"
  shows "source (metadata reg) = Snapshot" and "wellFormedRegistry reg"
proof -
  from assms obtain raws ms where ms: "transformModels clock raws = Inr ms"
    and reg: "buildRegistry now ms Snapshot = Inr reg"
    by (auto simp: loadFromSnapshot_def split: SnapshotImport.splits DataField.splits sum.splits)
  show "source (metadata reg) = Snapshot"
    using buildRegistry_Inr(2)[OF reg] .
  show "wellFormedRegistry reg"
    using buildRegistry_Inr(1,3)[OF reg] transformModels_descending[OF ms]
      transformModels_tiers[OF ms]
    by (simp add: wellFormedRegistry_def)
qed

lemma fetchRegistry_Inr:
  assumes "fetchRegistry outcome clock now = Inr reg"
  shows "source (metadata reg) = Api" and "wellFormedRegistry reg"
proof -
  from assms obtain raws ms where ms: "transformModels clock raws = Inr ms"
    and reg: "buildRegistry now ms Api = Inr reg"
    by (auto simp: fetchRegistry_def split: sum.splits RawModels.splits)
  show "source (metadata reg) = Api"
    using buildRegistry_Inr(2)[OF reg] .
  show "wellFormedRegistry reg"
    using buildRegistry_Inr(1,3)[OF reg] transformModels_descending[OF ms]
      transformModels_tiers[OF ms]
    by (simp add: wellFormedRegistry_def)
qed

text \<open>
  The last stage hands \<open>buildRegistry\<close> the hardcoded list as it is written. The list is
  grouped by provider, not sorted by context length, and the tier written into seven of its
  fourteen models is not the bin of their context length: the models of 128000 and of 131072
  tokens are labelled \<^verbatim>\<open>'medium'\<close>, where \<open>getSizeTier\<close> gives \<open>Large\<close>.
\<close>

lemma fallback_models_not_sorted: "\<not> descendingContext (FALLBACK_MODELS loaded)"
  by (simp add: descendingContext_def FALLBACK_MODELS_def fallbackModel_def)

lemma fallback_models_tiers:
  "map (\<lambda>m. (contextLength m, sizeTier m, getSizeTier (contextLength m)))
     (filter (\<lambda>m. \<not> tierOfContext m) (FALLBACK_MODELS loaded))
   = [(128000, Medium, Large), (128000, Medium, Large), (128000, Medium, Large),
      (131072, Medium, Large), (128000, Medium, Large), (131072, Medium, Large),
      (131072, Medium, Large)]"
  by (simp add: tierOfContext_def getSizeTier_def FALLBACK_MODELS_def fallbackModel_def)

lemma fallback_not_wellFormed:
  assumes "models reg = FALLBACK_MODELS loaded"
  shows "\<not> descendingContext (models reg)" and "\<not> list_all tierOfContext (models reg)"
    and "\<not> wellFormedRegistry reg"
proof -
  show a: "\<not> descendingContext (models reg)"
    using fallback_models_not_sorted by (simp add: assms)
  have "filter (\<lambda>m. \<not> tierOfContext m) (FALLBACK_MODELS loaded) \<noteq> []"
    using fallback_models_tiers[of loaded] by auto
  then show "\<not> list_all tierOfContext (models reg)"
    by (simp add: assms filter_empty_conv list_all_iff)
  show "\<not> wellFormedRegistry reg"
    using a by (simp add: wellFormedRegistry_def)
qed

subsection \<open>The fallback chain\<close>

text \<open>
  In every environment \<open>fetchRegistryWithFallback\<close> returns a registry and raises nothing,
  and the metadata and indices of the registry agree with its models. A registry of the
  first two stages is well formed. Whenever the API stage (\<open>fetchRegistry\<close>) raises, the
  source recorded in the metadata is not \<open>Api\<close>: it is \<open>Snapshot\<close>, and the registry is the
  one the snapshot stage loaded, if that stage yields a registry; and if the snapshot stage
  yields none, the source is \<open>Fallback\<close> and the models are the hardcoded list, which is not
  empty, and the registry is not well formed.
\<close>

lemma fetchRegistryWithFallback_returns:
  "\<exists>reg. fetchRegistryWithFallback env = Inr reg \<and> indexedRegistry reg
     \<and> (wellFormedRegistry reg \<longleftrightarrow> source (metadata reg) \<noteq> Fallback)
     \<and> ((\<exists>apiError. fetchRegistry (env_api env) (env_apiClock env) (env_apiNow env) = Inl apiError)
          \<longrightarrow> source (metadata reg) \<noteq> Api
            \<and> (loadFromSnapshot (env_snapshot env) (env_snapshotClock env) (env_snapshotNow env)
                 \<noteq> None
               \<longrightarrow> loadFromSnapshot (env_snapshot env) (env_snapshotClock env)
                     (env_snapshotNow env) = Some reg
                 \<and> source (metadata reg) = Snapshot)
            \<and> (loadFromSnapshot (env_snapshot env) (env_snapshotClock env) (env_snapshotNow env)
                 = None
               \<longrightarrow> source (metadata reg) = Fallback \<and> models reg = FALLBACK_MODELS (env_loaded env)
                 \<and> models reg \<noteq> []))"
proof (cases "fetchRegistry (env_api env) (env_apiClock env) (env_apiNow env)")
  case (Inr reg)
  then show ?thesis
    using fetchRegistry_Inr[OF Inr]
    by (simp add: fetchRegistryWithFallback_def wellFormedRegistry_def)
next
  case (Inl apiError)
  show ?thesis
  proof (cases "loadFromSnapshot (env_snapshot env) (env_snapshotClock env) (env_snapshotNow env)")
    case (Some reg)
    then show ?thesis
      using Inl loadFromSnapshot_Some[OF Some]
      by (simp add: fetchRegistryWithFallback_def wellFormedRegistry_def)
  next
    case None
    obtain reg where reg: "getFallbackRegistry (env_loaded env) (env_fallbackNow env) = Inr reg"
      using getFallbackRegistry_returns by blast
    then have "source (metadata reg) = Fallback" "indexedRegistry reg"
      and ms: "models reg = FALLBACK_MODELS (env_loaded env)"
      using buildRegistry_Inr[of "env_fallbackNow env" "FALLBACK_MODELS (env_loaded env)" Fallback reg]
      by (simp_all add: getFallbackRegistry_def)
    moreover have "FALLBACK_MODELS (env_loaded env) \<noteq> []"
      using length_FALLBACK_MODELS[of "env_loaded env"] by auto
    ultimately show ?thesis
      using Inl None reg fallback_not_wellFormed(3)[OF ms]
      by (simp add: fetchRegistryWithFallback_def)
  qed
qed

text \<open>
  C2, at the environment in which the fetch is rejected and the snapshot cannot be
  imported. \<open>fetchRegistryWithFallback\<close> raises nothing and returns a registry whose source
  is \<open>Fallback\<close> and whose fourteen models are the hardcoded list; the metadata and indices
  agree with the models. The registry is not well formed: the models are not in descending
  order of context length, and seven of them carry a tier that is not the bin of their
  context length.
\<close>

theorem fetchRegistryWithFallback_offline:
  "\<exists>reg. fetchRegistryWithFallback offlineEnv = Inr reg
     \<and> source (metadata reg) = Fallback
     \<and> models reg = FALLBACK_MODELS (\<lambda>i. 0)
     \<and> length (models reg) = 14
     \<and> indexedRegistry reg
     \<and> \<not> descendingContext (models reg)
     \<and> length (filter (\<lambda>m. \<not> tierOfContext m) (models reg)) = 7
     \<and> \<not> wellFormedRegistry reg"
proof -
  have api: "fetchRegistry (env_api offlineEnv) (env_apiClock offlineEnv) (env_apiNow offlineEnv)
      = Inl FetchError"
    by (simp add: offlineEnv_def snapshotEnv_def fetchRegistry_def fetchFromOpenRouter_def)
  have snapshot: "loadFromSnapshot (env_snapshot offlineEnv) (env_snapshotClock offlineEnv)
      (env_snapshotNow offlineEnv) = None"
    by (simp add: offlineEnv_def loadFromSnapshot_def)
  have loaded: "env_loaded offlineEnv = (\<lambda>i. 0)"
    by (simp add: offlineEnv_def snapshotEnv_def)
  from fetchRegistryWithFallback_returns[of offlineEnv] api snapshot loaded
  obtain reg where reg: "fetchRegistryWithFallback offlineEnv = Inr reg"
    and ix: "indexedRegistry reg" and src: "source (metadata reg) = Fallback"
    and ms: "models reg = FALLBACK_MODELS (\<lambda>i. 0)"
    by auto
  have seven: "length (filter (\<lambda>m. \<not> tierOfContext m) (models reg)) = 7"
    using arg_cong[OF fallback_models_tiers[of "\<lambda>i. 0"], of length] by (simp add: ms)
  show ?thesis
    using reg ix src ms seven fallback_not_wellFormed(1,3)[OF ms] length_FALLBACK_MODELS
    by simp
qed

section \<open>Properties of lookup and queries\<close>

subsection \<open>Helper lemmas on strings and on the first match\<close>

lemma startsWith_iff: "startsWith s t \<longleftrightarrow> prefix t s"
proof
  assume "startsWith s t"
  then have "s = t @ drop (length t) s"
    by (metis append_take_drop_id startsWith_def)
  then show "prefix t s"
    by (metis prefixI)
next
  assume "prefix t s"
  then obtain post where "s = t @ post"
    by (auto simp: prefix_def)
  then show "startsWith s t"
    by (simp add: startsWith_def)
qed

lemma endsWith_iff: "endsWith s t \<longleftrightarrow> suffix t s"
proof
  assume "endsWith s t"
  then have "s = take (length s - length t) s @ t"
    by (metis append_take_drop_id endsWith_def)
  then show "suffix t s"
    by (metis suffixI)
next
  assume "suffix t s"
  then obtain pre where "s = pre @ t"
    by (auto simp: suffix_def)
  then show "endsWith s t"
    by (simp add: endsWith_def)
qed

lemma includesStr_iff: "includesStr s t \<longleftrightarrow> sublist t s"
  by (induction s) (auto simp: startsWith_iff sublist_Cons_right)

lemma lookupPasses_nth:
  "k < 5 \<Longrightarrow> (lookupPasses q ! k) m \<longleftrightarrow> resolutionPass k q m"
proof -
  assume "k < 5"
  then consider "k = 0" | "k = 1" | "k = 2" | "k = 3" | "k = 4"
    by linarith
  then show ?thesis
    by cases
      (simp_all add: lookupPasses_def resolutionPass_def exactIdMatch_def exactSlugMatch_def
        partialIdMatch_def nameContainsMatch_def fuzzyMatch_def Let_def endsWith_iff
        includesStr_iff)
qed

lemma findModel_firstMatch:
  "findModel query ms = firstMatch (lookupPasses (trim (toLowerCase query))) ms"
  by (simp add: findModel_def lookupPasses_def Let_def split: option.splits)

lemma firstMatch_Some_iff:
  "firstMatch ps xs = Some m \<longleftrightarrow>
   (\<exists>k<length ps. find (ps ! k) xs = Some m \<and> (\<forall>k'<k. find (ps ! k') xs = None))"
proof (induction ps)
  case Nil
  then show ?case by simp
next
  case (Cons p ps)
  show ?case
  proof (cases "find p xs")
    case (Some x)
    have "(\<exists>k<length (p # ps). find ((p # ps) ! k) xs = Some m
            \<and> (\<forall>k'<k. find ((p # ps) ! k') xs = None)) \<longleftrightarrow> x = m"
    proof
      assume "\<exists>k<length (p # ps). find ((p # ps) ! k) xs = Some m
            \<and> (\<forall>k'<k. find ((p # ps) ! k') xs = None)"
      then obtain k where k: "find ((p # ps) ! k) xs = Some m"
        "\<forall>k'<k. find ((p # ps) ! k') xs = None" by blast
      have "k = 0"
      proof (rule ccontr)
        assume "k \<noteq> 0"
        then have "find ((p # ps) ! 0) xs = None" using k(2) by blast
        with Some show False by simp
      qed
      with k(1) Some show "x = m" by simp
    next
      assume "x = m"
      with Some have "find ((p # ps) ! 0) xs = Some m" by simp
      then show "\<exists>k<length (p # ps). find ((p # ps) ! k) xs = Some m
            \<and> (\<forall>k'<k. find ((p # ps) ! k') xs = None)"
        by (intro exI[of _ 0]) simp
    qed
    with Some show ?thesis by simp
  next
    case None
    have "(\<exists>k<length (p # ps). find ((p # ps) ! k) xs = Some m
            \<and> (\<forall>k'<k. find ((p # ps) ! k') xs = None)) \<longleftrightarrow>
          (\<exists>k<length ps. find (ps ! k) xs = Some m \<and> (\<forall>k'<k. find (ps ! k') xs = None))"
      (is "?L \<longleftrightarrow> ?R")
    proof
      assume ?L
      then obtain k where k: "k < length (p # ps)" "find ((p # ps) ! k) xs = Some m"
        "\<forall>k'<k. find ((p # ps) ! k') xs = None" by blast
      from k(2) None obtain j where j: "k = Suc j" by (cases k) auto
      have "\<forall>k'<j. find (ps ! k') xs = None"
      proof (intro allI impI)
        fix k' assume "k' < j"
        then have "Suc k' < k" using j by simp
        then have "find ((p # ps) ! Suc k') xs = None" using k(3) by blast
        then show "find (ps ! k') xs = None" by simp
      qed
      with k(1,2) j show ?R by auto
    next
      assume ?R
      then obtain j where j: "j < length ps" "find (ps ! j) xs = Some m"
        "\<forall>k'<j. find (ps ! k') xs = None" by blast
      have "\<forall>k'<Suc j. find ((p # ps) ! k') xs = None"
      proof (intro allI impI)
        fix k' assume "k' < Suc j"
        then show "find ((p # ps) ! k') xs = None"
          using None j(3) by (cases k') auto
      qed
      with j(1,2) show ?L
        by (intro exI[of _ "Suc j"]) simp
    qed
    with None Cons show ?thesis by simp
  qed
qed

lemma find_cong_pred: "(\<And>x. x \<in> set xs \<Longrightarrow> P x = Q x) \<Longrightarrow> find P xs = find Q xs"
  by (induction xs) auto

lemma firstMatch_by_passes:
  assumes "\<And>k x. k < length ps \<Longrightarrow> (ps ! k) x = Q k x"
  shows "firstMatch ps xs = Some m \<longleftrightarrow>
   (\<exists>k<length ps. (\<exists>i<length xs. xs ! i = m \<and> Q k m \<and> (\<forall>j<i. \<not> Q k (xs ! j)))
       \<and> (\<forall>k'<k. \<forall>x \<in> set xs. \<not> Q k' x))"
proof -
  have f: "find (ps ! k) xs = find (Q k) xs" if "k < length ps" for k
    using assms[OF that] by (intro find_cong_pred) simp
  have some: "find (Q k) xs = Some m \<longleftrightarrow>
      (\<exists>i<length xs. xs ! i = m \<and> Q k m \<and> (\<forall>j<i. \<not> Q k (xs ! j)))" for k
    unfolding find_Some_iff by auto
  have none: "find (Q k) xs = None \<longleftrightarrow> (\<forall>x \<in> set xs. \<not> Q k x)" for k
    unfolding find_None_iff by auto
  have "firstMatch ps xs = Some m \<longleftrightarrow>
      (\<exists>k<length ps. find (Q k) xs = Some m \<and> (\<forall>k'<k. find (Q k') xs = None))"
    unfolding firstMatch_Some_iff
  proof (intro iffI; elim exE conjE)
    fix k assume k: "k < length ps" "find (ps ! k) xs = Some m"
      "\<forall>k'<k. find (ps ! k') xs = None"
    have "\<forall>k'<k. find (Q k') xs = None"
    proof (intro allI impI)
      fix k' assume "k' < k"
      then show "find (Q k') xs = None" using k(1,3) f[of k'] by simp
    qed
    then show "\<exists>k<length ps. find (Q k) xs = Some m \<and> (\<forall>k'<k. find (Q k') xs = None)"
      using k(1,2) f[of k] by auto
  next
    fix k assume k: "k < length ps" "find (Q k) xs = Some m"
      "\<forall>k'<k. find (Q k') xs = None"
    have "\<forall>k'<k. find (ps ! k') xs = None"
    proof (intro allI impI)
      fix k' assume "k' < k"
      then show "find (ps ! k') xs = None" using k(1,3) f[of k'] by simp
    qed
    then show "\<exists>k<length ps. find (ps ! k) xs = Some m \<and> (\<forall>k'<k. find (ps ! k') xs = None)"
      using k(1,2) f[of k] by auto
  qed
  then show ?thesis
    by (simp only: some none)
qed

lemma passes_of_resolution:
  assumes "list_all (\<lambda>x. \<not> exactIdMatch q x \<and> \<not> exactSlugMatch q x \<and> \<not> partialIdMatch q x
                        \<and> \<not> nameContainsMatch q x) ms"
  shows "\<forall>k<4. \<forall>x \<in> set ms. \<not> resolutionPass k q x"
proof (intro allI impI ballI)
  fix k :: nat and x assume k: "k < 4" and x: "x \<in> set ms"
  from assms x have n: "\<not> exactIdMatch q x" "\<not> exactSlugMatch q x" "\<not> partialIdMatch q x"
    "\<not> nameContainsMatch q x"
    by (auto simp: list_all_iff)
  from k consider "k = 0" | "k = 1" | "k = 2" | "k = 3" by linarith
  then have "\<not> (lookupPasses q ! k) x"
    by cases (simp_all add: lookupPasses_def n)
  then show "\<not> resolutionPass k q x"
    using lookupPasses_nth[of k q x] k by simp
qed

lemma fuzzy_of_resolution: "resolutionPass 4 q x \<longleftrightarrow> fuzzyMatch q x"
  using lookupPasses_nth[of 4 q x] by (simp add: lookupPasses_def)

subsection \<open>Resolution order of \<open>findModel\<close>\<close>

text \<open>
  C9, as the code has it. With the query lowercased and trimmed, \<open>findModel\<close> returns a
  model \<open>m\<close> exactly when, for one of the five passes in their fixed order, \<open>m\<close> is the first
  model of the list that matches this pass and no model of the list matches an earlier
  pass. In particular \<open>findModel\<close> applied to \<^verbatim>\<open>gpt4o\<close> returns a model with the identifier
  \<^verbatim>\<open>openai/gpt-4o\<close> through the fuzzy pass when no earlier pass matches any model and no
  model before it in the list matches the fuzzy pass.
\<close>

theorem findModel_resolution_order:
  "(findModel query ms = Some m \<longleftrightarrow>
      (\<exists>k<5. (\<exists>i<length ms. ms ! i = m
                 \<and> resolutionPass k (trim (toLowerCase query)) m
                 \<and> (\<forall>j<i. \<not> resolutionPass k (trim (toLowerCase query)) (ms ! j)))
         \<and> (\<forall>k'<k. \<forall>x \<in> set ms. \<not> resolutionPass k' (trim (toLowerCase query)) x)))
   \<and> (\<forall>i<length ms.
         model_id (ms ! i) = ''openai/gpt-4o''
         \<and> (\<forall>k<4. \<forall>x \<in> set ms. \<not> resolutionPass k ''gpt4o'' x)
         \<and> (\<forall>j<i. \<not> resolutionPass 4 ''gpt4o'' (ms ! j))
         \<longrightarrow> findModel ''gpt4o'' ms = Some (ms ! i))"
proof -
  have order: "findModel q ms = Some m' \<longleftrightarrow>
      (\<exists>k<5. (\<exists>i<length ms. ms ! i = m'
                 \<and> resolutionPass k (trim (toLowerCase q)) m'
                 \<and> (\<forall>j<i. \<not> resolutionPass k (trim (toLowerCase q)) (ms ! j)))
         \<and> (\<forall>k'<k. \<forall>x \<in> set ms. \<not> resolutionPass k' (trim (toLowerCase q)) x))"
    for q m'
  proof -
    let ?n = "trim (toLowerCase q)"
    have len: "length (lookupPasses ?n) = 5"
      by (simp add: lookupPasses_def)
    have "(lookupPasses ?n ! k) x = resolutionPass k ?n x" if "k < length (lookupPasses ?n)" for k x
      using that lookupPasses_nth[of k ?n x] by (simp only: len)
    from firstMatch_by_passes[of "lookupPasses ?n" "\<lambda>k. resolutionPass k ?n", OF this]
    show ?thesis
      by (simp only: findModel_firstMatch len)
  qed
  have particular: "findModel ''gpt4o'' ms = Some (ms ! i)"
    if i: "i < length ms" and mid: "model_id (ms ! i) = ''openai/gpt-4o''"
      and earlier: "\<forall>k<4. \<forall>x \<in> set ms. \<not> resolutionPass k ''gpt4o'' x"
      and before: "\<forall>j<i. \<not> resolutionPass 4 ''gpt4o'' (ms ! j)" for i
  proof -
    have q: "trim (toLowerCase ''gpt4o'') = ''gpt4o''"
      by (simp add: trim_def toLowerCase_def toLowerChar_def upperLetters_def lowerLetters_def
          isWhiteSpace_def)
    have "includesStr (stripFuzzy (toLowerCase ''openai/gpt-4o'')) (stripFuzzy ''gpt4o'')"
      by (simp add: stripFuzzy_def toLowerCase_def toLowerChar_def upperLetters_def
          lowerLetters_def isWhiteSpace_def startsWith_def)
    then have fuzzy: "resolutionPass 4 ''gpt4o'' (ms ! i)"
      by (simp add: resolutionPass_def mid includesStr_iff)
    have "\<exists>i'<length ms. ms ! i' = ms ! i \<and> resolutionPass 4 ''gpt4o'' (ms ! i)
            \<and> (\<forall>j<i'. \<not> resolutionPass 4 ''gpt4o'' (ms ! j))"
      using i fuzzy before by blast
    then have "\<exists>k<5. (\<exists>i'<length ms. ms ! i' = ms ! i \<and> resolutionPass k ''gpt4o'' (ms ! i)
            \<and> (\<forall>j<i'. \<not> resolutionPass k ''gpt4o'' (ms ! j)))
          \<and> (\<forall>k'<k. \<forall>x \<in> set ms. \<not> resolutionPass k' ''gpt4o'' x)"
      using earlier by (intro exI[of _ "4::nat"]) simp
    then show ?thesis
      using order[of "''gpt4o''" "ms ! i"] by (simp only: q)
  qed
  show ?thesis
    using order[of query m] particular by blast
qed

theorem findModel_resolution_order_witness:
  "findModel ''gpt4o'' (FALLBACK_MODELS (\<lambda>i. 0)) = Some (FALLBACK_MODELS (\<lambda>i. 0) ! 3)
   \<and> model_id (FALLBACK_MODELS (\<lambda>i. 0) ! 3) = ''openai/gpt-4o''"
proof -
  let ?ms = "FALLBACK_MODELS (\<lambda>i. 0)"
  have i: "3 < length ?ms"
    by (simp add: length_FALLBACK_MODELS)
  have mid: "model_id (?ms ! 3) = ''openai/gpt-4o''"
    by (simp add: FALLBACK_MODELS_def fallbackModel_def)
  have "list_all (\<lambda>x. \<not> exactIdMatch ''gpt4o'' x \<and> \<not> exactSlugMatch ''gpt4o'' x
                  \<and> \<not> partialIdMatch ''gpt4o'' x \<and> \<not> nameContainsMatch ''gpt4o'' x) ?ms"
    by code_simp
  then have earlier: "\<forall>k<4. \<forall>x \<in> set ?ms. \<not> resolutionPass k ''gpt4o'' x"
    by (rule passes_of_resolution)
  have "list_all (\<lambda>x. \<not> fuzzyMatch ''gpt4o'' x) (take 3 ?ms)"
    by code_simp
  then have nf: "\<forall>x \<in> set (take 3 ?ms). \<not> fuzzyMatch ''gpt4o'' x"
    by (simp only: list_all_iff)
  have before: "\<forall>j<3. \<not> resolutionPass 4 ''gpt4o'' (?ms ! j)"
  proof (intro allI impI)
    fix j :: nat assume j: "j < 3"
    then have "take 3 ?ms ! j \<in> set (take 3 ?ms)"
      using i by (intro nth_mem) simp
    then have "?ms ! j \<in> set (take 3 ?ms)"
      using j by simp
    then show "\<not> resolutionPass 4 ''gpt4o'' (?ms ! j)"
      using nf by (simp only: fuzzy_of_resolution) blast
  qed
  show ?thesis
    using findModel_resolution_order[of "''gpt4o''" ?ms "?ms ! 3"] i mid earlier before
    by blast
qed

text \<open>
  The particular case as the specification words it fails when another model that matches
  the fuzzy pass stands earlier in the list: no earlier pass matches either model, the
  list holds the model \<^verbatim>\<open>openai/gpt-4o\<close>, and the lookup returns \<^verbatim>\<open>openai/gpt-4o-mini\<close>.
\<close>

theorem findModel_first_fuzzy_counterexample:
  "model_id gpt4oModel = ''openai/gpt-4o''
   \<and> list_all (\<lambda>x. \<not> exactIdMatch ''gpt4o'' x \<and> \<not> exactSlugMatch ''gpt4o'' x
                  \<and> \<not> partialIdMatch ''gpt4o'' x \<and> \<not> nameContainsMatch ''gpt4o'' x)
        [gpt4oMiniModel, gpt4oModel]
   \<and> map_option model_id (findModel ''gpt4o'' [gpt4oMiniModel, gpt4oModel])
       = Some ''openai/gpt-4o-mini''"
  by code_simp

subsection \<open>Helper lemmas on the heap\<close>

lemma resultOf_alloc: "resultOf (alloc h xs) = xs"
  by (simp add: resultOf_def alloc_def content_def)

lemma fresh_alloc: "fresh h (alloc h xs)"
  by (simp add: fresh_def alloc_def)

lemma fresh_alloc_again: "fresh h st \<Longrightarrow> fresh h (alloc (fst st) xs)"
  by (auto simp: fresh_def alloc_def)

lemma fresh_replaceWith: "fresh h st \<Longrightarrow> fresh h (replaceWith f st)"
  by (auto simp: replaceWith_def fresh_alloc_again split: option.splits)

lemma fresh_sortInPlace: "fresh h st \<Longrightarrow> fresh h (sortInPlace f st)"
  by (auto simp: sortInPlace_def fresh_def overwrite_def split: option.splits)

lemma resultOf_replaceWith: "resultOf (replaceWith f st) = applyStage f (resultOf st)"
  by (auto simp: replaceWith_def applyStage_def resultOf_alloc split: option.splits)

lemma resultOf_sortInPlace:
  "fresh h st \<Longrightarrow> resultOf (sortInPlace f st) = applyStage f (resultOf st)"
  by (auto simp: sortInPlace_def applyStage_def resultOf_def content_def overwrite_def fresh_def
      split: option.splits)

lemma fresh_content: "fresh h st \<Longrightarrow> a < length h \<Longrightarrow> content (fst st) a = content h a"
  by (metis content_def fresh_def nth_take)

text \<open>The array returned, as a function of the array passed in.\<close>

lemma queryModels_fresh: "fresh h (queryModels lc h ms options)"
  unfolding queryModels_def Let_def
  by (intro fresh_replaceWith fresh_sortInPlace fresh_alloc)

lemma queryModels_result:
  "resultOf (queryModels lc h ms options) =
     applyStage (limitStage options)
       (applyStage (sortStage lc options)
         (applyStage (searchStage options)
           (applyStage (supportsImagesStage options)
             (applyStage (isFreeStage options)
               (applyStage (tierStage options)
                 (applyStage (maxContextStage options)
                   (applyStage (minContextStage options)
                     (applyStage (providerStage options) (content h ms)))))))))"
proof -
  have f: "fresh h (replaceWith (searchStage options)
        (replaceWith (supportsImagesStage options)
          (replaceWith (isFreeStage options)
            (replaceWith (tierStage options)
              (replaceWith (maxContextStage options)
                (replaceWith (minContextStage options)
                  (replaceWith (providerStage options) (alloc h (content h ms)))))))))"
    by (intro fresh_replaceWith fresh_alloc)
  show ?thesis
    unfolding queryModels_def Let_def
    by (simp only: resultOf_replaceWith resultOf_sortInPlace[OF f] resultOf_alloc)
qed

subsection \<open>Helper lemmas on the stages of a query\<close>

lemma stages_ignore_limit:
  "providerStage (options\<lparr>opt_limit := x\<rparr>) = providerStage options"
  "minContextStage (options\<lparr>opt_limit := x\<rparr>) = minContextStage options"
  "maxContextStage (options\<lparr>opt_limit := x\<rparr>) = maxContextStage options"
  "tierStage (options\<lparr>opt_limit := x\<rparr>) = tierStage options"
  "isFreeStage (options\<lparr>opt_limit := x\<rparr>) = isFreeStage options"
  "supportsImagesStage (options\<lparr>opt_limit := x\<rparr>) = supportsImagesStage options"
  "searchStage (options\<lparr>opt_limit := x\<rparr>) = searchStage options"
  "sortStage lc (options\<lparr>opt_limit := x\<rparr>) = sortStage lc options"
  by (simp_all add: fun_eq_iff providerStage_def minContextStage_def maxContextStage_def
      tierStage_def isFreeStage_def supportsImagesStage_def searchStage_def sortStage_def)

lemma nat_from_end: "n < 0 \<Longrightarrow> nat (int k + n) = k - nat (- n)"
  by arith

lemma limitStage_cases:
  "limitStage (options\<lparr>opt_limit := None\<rparr>) = (\<lambda>xs. None)"
  "limitStage (options\<lparr>opt_limit := Some 0\<rparr>) = (\<lambda>xs. None)"
  "0 < n \<Longrightarrow> limitStage (options\<lparr>opt_limit := Some n\<rparr>) = (\<lambda>xs. Some (take (nat n) xs))"
  "n < 0 \<Longrightarrow> limitStage (options\<lparr>opt_limit := Some n\<rparr>)
     = (\<lambda>xs. Some (take (length xs - nat (- n)) xs))"
  by (auto simp: fun_eq_iff limitStage_def slice0_def nat_from_end)

lemma filters_as_one:
  "applyStage (searchStage options)
     (applyStage (supportsImagesStage options)
       (applyStage (isFreeStage options)
         (applyStage (tierStage options)
           (applyStage (maxContextStage options)
             (applyStage (minContextStage options)
               (applyStage (providerStage options) xs))))))
   = filter (passesFilters options) xs"
proof -
  have p: "applyStage (providerStage options) ys =
      filter (\<lambda>m. case opt_provider options of
                     None \<Rightarrow> True
                   | Some (One p) \<Rightarrow> p = [] \<or> providerMatches [p] m
                   | Some (Many ps) \<Rightarrow> providerMatches ps m) ys" for ys
    by (simp add: applyStage_def providerStage_def split: option.splits OneOrMany.splits)
  have lo: "applyStage (minContextStage options) ys =
      filter (\<lambda>m. case opt_minContext options of None \<Rightarrow> True | Some lo \<Rightarrow> contextLength m \<ge> lo) ys"
    for ys
    by (simp add: applyStage_def minContextStage_def split: option.splits)
  have hi: "applyStage (maxContextStage options) ys =
      filter (\<lambda>m. case opt_maxContext options of None \<Rightarrow> True | Some hi \<Rightarrow> contextLength m \<le> hi) ys"
    for ys
    by (simp add: applyStage_def maxContextStage_def split: option.splits)
  have ti: "applyStage (tierStage options) ys =
      filter (\<lambda>m. case opt_tier options of
                     None \<Rightarrow> True | Some tiers \<Rightarrow> sizeTier m \<in> set (asList tiers)) ys" for ys
    by (simp add: applyStage_def tierStage_def split: option.splits)
  have fr: "applyStage (isFreeStage options) ys =
      filter (\<lambda>m. case opt_isFree options of None \<Rightarrow> True | Some b \<Rightarrow> isFree (pricing m) = b) ys"
    for ys
    by (simp add: applyStage_def isFreeStage_def split: option.splits)
  have im: "applyStage (supportsImagesStage options) ys =
      filter (\<lambda>m. case opt_supportsImages options of
                     None \<Rightarrow> True | Some b \<Rightarrow> supportsImages (capabilities m) = b) ys" for ys
    by (simp add: applyStage_def supportsImagesStage_def split: option.splits)
  have se: "applyStage (searchStage options) ys =
      filter (\<lambda>m. case opt_search options of
                     None \<Rightarrow> True | Some s \<Rightarrow> s = [] \<or> searchMatches (toLowerCase s) m) ys" for ys
    by (simp add: applyStage_def searchStage_def split: option.splits)
  show ?thesis
    unfolding p lo hi ti fr im se filter_filter passesFilters_def
    by (intro filter_cong refl) (simp only: conj_assoc)
qed

subsection \<open>Purity of \<open>queryModels\<close>\<close>

text \<open>
  C7. For every heap, every array \<open>ms\<close> of models in it and every option set, a call of
  \<open>queryModels\<close> leaves every array that existed before the call as it was, in particular
  the input array; and a second call with the same inputs, on the heap the first call
  left, returns an array with the same models in the same order, again without touching
  the input or the first result.
\<close>

theorem queryModels_pure:
  assumes "ms < length h"
  shows "(let (h', r) = queryModels lc h ms options;
              (h'', r') = queryModels lc h' ms options
          in take (length h) h' = h
             \<and> content h' ms = content h ms
             \<and> content h'' ms = content h ms
             \<and> content h'' r' = content h' r
             \<and> content h'' r = content h' r)"
proof -
  obtain h' r where first: "queryModels lc h ms options = (h', r)"
    by (cases "queryModels lc h ms options")
  obtain h'' r' where second: "queryModels lc h' ms options = (h'', r')"
    by (cases "queryModels lc h' ms options")
  have f1: "fresh h (h', r)"
    using queryModels_fresh[of h lc ms options] by (simp only: first)
  have f2: "fresh h' (h'', r')"
    using queryModels_fresh[of h' lc ms options] by (simp only: second)
  have frame: "take (length h) h' = h" and r: "r < length h'" and len: "length h \<le> length h'"
    using f1 by (auto simp: fresh_def)
  have input1: "content h' ms = content h ms"
    using fresh_content[OF f1 assms] by simp
  have ms': "ms < length h'"
    using assms len by simp
  have input2: "content h'' ms = content h ms"
    using fresh_content[OF f2 ms'] input1 by simp
  have kept: "content h'' r = content h' r"
    using fresh_content[OF f2 r] by simp
  have "resultOf (h'', r') = resultOf (h', r)"
    using queryModels_result[of lc h ms options] queryModels_result[of lc h' ms options]
    by (simp only: first second input1)
  then have again: "content h'' r' = content h' r"
    by (simp add: resultOf_def)
  show ?thesis
    using frame input1 input2 again kept by (simp add: first second)
qed

theorem queryModels_pure_witness:
  "(let (h', r) = queryModels (\<lambda>a b. 0) sampleHeap 0 sampleOptions;
        (h'', r') = queryModels (\<lambda>a b. 0) h' 0 sampleOptions
    in content h' 0 = FALLBACK_MODELS (\<lambda>i. 0)
       \<and> content h'' 0 = FALLBACK_MODELS (\<lambda>i. 0)
       \<and> content h'' r' = content h' r)"
proof -
  have "0 < length sampleHeap"
    by (simp add: sampleHeap_def)
  from queryModels_pure[OF this, of "\<lambda>a b. 0" sampleOptions]
  show ?thesis
    by (auto simp: sampleHeap_def content_def split: prod.splits)
qed

subsection \<open>The limit\<close>

text \<open>
  C10, as the code has it. For every model list and option set, \<open>queryModels\<close> with the
  limit 0 does exactly what it does without a limit: it returns every model that passes the
  filters (sorted when a sort key is given), and nothing is cut off. A strictly positive
  limit \<open>n\<close> cuts the result without a limit down to its first \<open>n\<close> models. A negative limit
  \<open>n\<close> cuts as well: it drops the last \<open>- n\<close> models of the result without a limit.
\<close>

theorem queryModels_limit_zero:
  "queryModels lc h ms (options\<lparr>opt_limit := Some 0\<rparr>)
     = queryModels lc h ms (options\<lparr>opt_limit := None\<rparr>)
   \<and> resultOf (queryModels lc h ms (options\<lparr>opt_limit := Some 0\<rparr>))
       = applyStage (sortStage lc options) (filter (passesFilters options) (content h ms))
   \<and> (\<forall>n>0. resultOf (queryModels lc h ms (options\<lparr>opt_limit := Some n\<rparr>))
              = take (nat n) (resultOf (queryModels lc h ms (options\<lparr>opt_limit := None\<rparr>))))
   \<and> (\<forall>n<0. resultOf (queryModels lc h ms (options\<lparr>opt_limit := Some n\<rparr>))
              = take (length (resultOf (queryModels lc h ms (options\<lparr>opt_limit := None\<rparr>)))
                        - nat (- n))
                  (resultOf (queryModels lc h ms (options\<lparr>opt_limit := None\<rparr>))))"
proof -
  have same: "queryModels lc h ms (options\<lparr>opt_limit := Some 0\<rparr>)
     = queryModels lc h ms (options\<lparr>opt_limit := None\<rparr>)"
    by (simp only: queryModels_def stages_ignore_limit limitStage_cases)
  have unlimited: "resultOf (queryModels lc h ms (options\<lparr>opt_limit := None\<rparr>))
       = applyStage (sortStage lc options) (filter (passesFilters options) (content h ms))"
    by (simp only: queryModels_result stages_ignore_limit limitStage_cases filters_as_one)
      (simp add: applyStage_def)
  have capped: "resultOf (queryModels lc h ms (options\<lparr>opt_limit := Some n\<rparr>))
              = take (nat n) (resultOf (queryModels lc h ms (options\<lparr>opt_limit := None\<rparr>)))"
    if "0 < n" for n
    by (simp only: queryModels_result stages_ignore_limit limitStage_cases(1)
        limitStage_cases(3)[OF that])
      (simp add: applyStage_def)
  have dropped: "resultOf (queryModels lc h ms (options\<lparr>opt_limit := Some n\<rparr>))
              = take (length (resultOf (queryModels lc h ms (options\<lparr>opt_limit := None\<rparr>)))
                        - nat (- n))
                  (resultOf (queryModels lc h ms (options\<lparr>opt_limit := None\<rparr>)))"
    if "n < 0" for n
    by (simp only: queryModels_result stages_ignore_limit limitStage_cases(1)
        limitStage_cases(4)[OF that])
      (simp add: applyStage_def)
  show ?thesis
    using same unlimited capped dropped by simp
qed

theorem queryModels_limit_zero_witness:
  "map model_id (resultOf (queryModels (\<lambda>a b. 0) sampleHeap 0 (sampleOptions\<lparr>opt_limit := Some 0\<rparr>)))
     = [''google/gemini-2.5-pro-preview'', ''google/gemini-2.0-flash-exp'',
        ''anthropic/claude-sonnet-4'', ''anthropic/claude-3.5-sonnet'',
        ''anthropic/claude-opus-4'', ''openai/o1'']
   \<and> map model_id (resultOf (queryModels (\<lambda>a b. 0) sampleHeap 0 (sampleOptions\<lparr>opt_limit := Some 2\<rparr>)))
     = [''google/gemini-2.5-pro-preview'', ''google/gemini-2.0-flash-exp'']
   \<and> map model_id (resultOf (queryModels (\<lambda>a b. 0) sampleHeap 0 (sampleOptions\<lparr>opt_limit := Some (- 2)\<rparr>)))
     = [''google/gemini-2.5-pro-preview'', ''google/gemini-2.0-flash-exp'',
        ''anthropic/claude-sonnet-4'', ''anthropic/claude-3.5-sonnet'']"
proof -
  have ev: "map model_id (resultOf (queryModels (\<lambda>a b. 0) sampleHeap 0 (sampleOptions\<lparr>opt_limit := None\<rparr>)))
     = [''google/gemini-2.5-pro-preview'', ''google/gemini-2.0-flash-exp'',
        ''anthropic/claude-sonnet-4'', ''anthropic/claude-3.5-sonnet'',
        ''anthropic/claude-opus-4'', ''openai/o1'']"
    by code_simp
  then have len: "length (resultOf (queryModels (\<lambda>a b. 0) sampleHeap 0 (sampleOptions\<lparr>opt_limit := None\<rparr>))) = 6"
    using length_map[of model_id "resultOf (queryModels (\<lambda>a b. 0) sampleHeap 0 (sampleOptions\<lparr>opt_limit := None\<rparr>))"]
    by simp
  note lim = queryModels_limit_zero[of "\<lambda>a b. 0" sampleHeap 0 sampleOptions]
  have zero: "queryModels (\<lambda>a b. 0) sampleHeap 0 (sampleOptions\<lparr>opt_limit := Some 0\<rparr>)
      = queryModels (\<lambda>a b. 0) sampleHeap 0 (sampleOptions\<lparr>opt_limit := None\<rparr>)"
    using lim by (rule conjunct1)
  have "resultOf (queryModels (\<lambda>a b. 0) sampleHeap 0 (sampleOptions\<lparr>opt_limit := Some 2\<rparr>))
      = take (nat 2) (resultOf (queryModels (\<lambda>a b. 0) sampleHeap 0 (sampleOptions\<lparr>opt_limit := None\<rparr>)))"
    using lim by simp
  then have two: "map model_id (resultOf (queryModels (\<lambda>a b. 0) sampleHeap 0 (sampleOptions\<lparr>opt_limit := Some 2\<rparr>)))
      = take 2 (map model_id (resultOf (queryModels (\<lambda>a b. 0) sampleHeap 0 (sampleOptions\<lparr>opt_limit := None\<rparr>))))"
    by (simp add: take_map)
  have "resultOf (queryModels (\<lambda>a b. 0) sampleHeap 0 (sampleOptions\<lparr>opt_limit := Some (- 2)\<rparr>))
      = take (6 - nat (- (- 2)))
          (resultOf (queryModels (\<lambda>a b. 0) sampleHeap 0 (sampleOptions\<lparr>opt_limit := None\<rparr>)))"
    using lim len by simp
  then have minus: "map model_id (resultOf (queryModels (\<lambda>a b. 0) sampleHeap 0 (sampleOptions\<lparr>opt_limit := Some (- 2)\<rparr>)))
      = take 4 (map model_id (resultOf (queryModels (\<lambda>a b. 0) sampleHeap 0 (sampleOptions\<lparr>opt_limit := None\<rparr>))))"
    by (simp add: take_map)
  show ?thesis
    by (simp only: zero two minus ev) simp
qed

text \<open>
  The claim as the specification words it confines the cut to a strictly positive limit.
  With the limit \<open>- 2\<close>, which is not strictly positive, and no other option, the query over
  the fourteen hardcoded models returns the first twelve of them.
\<close>

theorem queryModels_negative_limit_counterexample:
  "\<not> (0 < (- 2 :: int))
   \<and> map model_id (resultOf (queryModels (\<lambda>a b. 0) sampleHeap 0 (noOptions\<lparr>opt_limit := None\<rparr>)))
       = map model_id (FALLBACK_MODELS (\<lambda>i. 0))
   \<and> length (FALLBACK_MODELS (\<lambda>i. 0)) = 14
   \<and> map model_id (resultOf (queryModels (\<lambda>a b. 0) sampleHeap 0 (noOptions\<lparr>opt_limit := Some (- 2)\<rparr>)))
       = take 12 (map model_id (FALLBACK_MODELS (\<lambda>i. 0)))"
  by code_simp

end
